theory Spec2Isabelle
  imports Complex_Main
begin

text \<open>
  A student management system: an Express server over PostgreSQL (drizzle) and a React
  client. This theory embeds the gradebook computations of the client
  (\<open>src/unnamed/part_004\<close>), the status counts of the attendance form
  (\<open>src/unnamed/part_002\<close>), and the table definitions, the storage operations on
  grades and attendance and the dashboard statistics of the server (\<open>shared/schema.ts\<close>
  and \<open>server/storage.ts\<close>, both in \<open>src/replit.md\<close>).
\<close>

section \<open>Numbers\<close>

text \<open>
  The client and the statistics code compute with JavaScript numbers (IEEE 754 binary64).
  The embedding carries a number as the rational it denotes and gives every arithmetic
  function a parameter \<open>rd\<close> that is applied to the result of each operation. The
  program is the instance \<open>binary64\<close>, which rounds to the nearest double, ties to
  even. \<open>exact\<close> does not round: it gives the value that the same expression has over
  the rational numbers, to compare with. Comparisons are exact in both.
\<close>

type_synonym rounding = "rat \<Rightarrow> rat"

definition exact :: rounding where
  "exact x = x"

definition round_half_even :: "rat \<Rightarrow> int" where
  "round_half_even x =
     (let f = \<lfloor>x\<rfloor>; d = x - of_int f
      in if d < 1 / 2 then f else if 1 / 2 < d then f + 1 else if even f then f else f + 1)"

text \<open>
  The exponent \<open>e\<close> of a positive number \<open>x\<close> is the integer with
  \<open>2 ^ 52 \<le> x / 2 ^ e < 2 ^ 53\<close>; it is found by doubling or halving \<open>x\<close>. The
  exponent range of binary64 is not bounded here: overflow to Infinity and subnormal
  numbers are left out, the numbers of this program are far from both.
\<close>

function scale_up :: "rat \<Rightarrow> int \<Rightarrow> int" where
  "scale_up x e = (if 0 < x \<and> x < 2 ^ 52 then scale_up (2 * x) (e - 1) else e)"
  by pat_completeness auto
termination
proof (relation "measure (\<lambda>(x, e). nat \<lceil>2 ^ 52 / x\<rceil>)")
  show "wf (measure (\<lambda>(x::rat, e::int). nat \<lceil>2 ^ 52 / x\<rceil>))" by simp
next
  fix x :: rat and e :: int
  assume a: "0 < x \<and> x < 2 ^ 52"
  define y where "y = 2 ^ 52 / x"
  have y1: "1 < y" using a by (simp add: y_def)
  have c2: "2 \<le> \<lceil>y\<rceil>" using y1 by linarith
  have "y / 2 \<le> of_int \<lceil>y\<rceil> / 2" by (simp add: divide_right_mono)
  also have "\<dots> \<le> of_int (\<lceil>y\<rceil> - 1)" using c2 by simp
  finally have "\<lceil>y / 2\<rceil> \<le> \<lceil>y\<rceil> - 1" by (rule ceiling_le)
  hence "nat \<lceil>y / 2\<rceil> < nat \<lceil>y\<rceil>" using c2 by linarith
  moreover have "2 ^ 52 / (2 * x) = y / 2" by (simp add: y_def)
  ultimately show "((2 * x, e - 1), (x, e)) \<in> measure (\<lambda>(x, e). nat \<lceil>2 ^ 52 / x\<rceil>)"
    by (simp add: y_def)
qed

function scale_down :: "rat \<Rightarrow> int \<Rightarrow> int" where
  "scale_down x e = (if 2 ^ 53 \<le> x then scale_down (x / 2) (e + 1) else e)"
  by pat_completeness auto
termination
proof (relation "measure (\<lambda>(x, e). nat \<lfloor>x\<rfloor>)")
  show "wf (measure (\<lambda>(x::rat, e::int). nat \<lfloor>x\<rfloor>))" by simp
next
  fix x :: rat and e :: int
  assume a: "2 ^ 53 \<le> x"
  have c: "2 \<le> \<lfloor>x\<rfloor>" using a by (simp add: le_floor_iff)
  have "x / 2 \<le> x - 1" using a by simp
  hence "\<lfloor>x / 2\<rfloor> \<le> \<lfloor>x - 1\<rfloor>" by (rule floor_mono)
  hence "nat \<lfloor>x / 2\<rfloor> < nat \<lfloor>x\<rfloor>" using c by simp
  thus "((x / 2, e + 1), (x, e)) \<in> measure (\<lambda>(x, e). nat \<lfloor>x\<rfloor>)" by simp
qed

declare scale_up.simps [simp del] scale_down.simps [simp del]

definition exponent :: "rat \<Rightarrow> int" where
  "exponent x = (if x < 2 ^ 52 then scale_up x 0 else scale_down x 0)"

definition binary64 :: rounding where
  "binary64 x =
     (if x = 0 then 0
      else let e = exponent \<bar>x\<bar>
           in sgn x * of_int (round_half_even (\<bar>x\<bar> / (2 powi e))) * (2 powi e))"

text \<open>
  \<open>Math.round\<close> returns the nearest integer, a tie going up; the integer is exact.
\<close>

definition Math_round :: "rat \<Rightarrow> rat" where
  "Math_round x = of_int \<lfloor>x + 1 / 2\<rfloor>"

section \<open>Rows\<close>

text \<open>
  The rows of \<open>shared/schema.ts\<close> that the operations below read or write. A field
  carries the prefix of its table, since several tables share column names. A
  \<open>decimal(5, 2)\<close> value is carried as the rational it denotes, a nullable column as an
  option, a timestamp as a number.
  \<^verbatim>\<open>
  export const grades = pgTable("grades", {
    id: varchar("id").primaryKey().default(sql`gen_random_uuid()`),
    studentId: varchar("student_id").notNull().references(() => students.id, { onDelete: 'cascade' }),
    assessmentId: varchar("assessment_id").notNull().references(() => assessments.id, { onDelete: 'cascade' }),
    score: decimal("score", { precision: 5, scale: 2 }).notNull(),
    letterGrade: varchar("letter_grade"),
    feedback: text("feedback"),
    gradedBy: varchar("graded_by").notNull().references(() => users.id),
    gradedAt: timestamp("graded_at").defaultNow(),
    updatedAt: timestamp("updated_at").defaultNow(),
  });
  \<close>
\<close>

type_synonym timestamp = nat

record Grade =
  g_id :: string
  g_studentId :: string
  g_assessmentId :: string
  g_score :: rat
  g_letterGrade :: "string option"
  g_feedback :: "string option"
  g_gradedBy :: string
  g_gradedAt :: "timestamp option"
  g_updatedAt :: "timestamp option"

text \<open>
  \<^verbatim>\<open>
  export const attendance = pgTable("attendance", {
    id: varchar("id").primaryKey().default(sql`gen_random_uuid()`),
    studentId: varchar("student_id").notNull().references(() => students.id, { onDelete: 'cascade' }),
    courseId: varchar("course_id").notNull().references(() => courses.id, { onDelete: 'cascade' }),
    date: date("date").notNull(),
    status: attendanceStatusEnum("status").notNull(),
    notes: text("notes"),
    markedBy: varchar("marked_by").notNull().references(() => users.id),
    markedAt: timestamp("marked_at").defaultNow(),
  });
  \<close>
  A date is a day number.
\<close>

record Attendance =
  a_id :: string
  a_studentId :: string
  a_courseId :: string
  a_date :: int
  a_status :: string
  a_notes :: "string option"
  a_markedBy :: string
  a_markedAt :: "timestamp option"

definition attendanceStatusEnum :: "string list" where
  "attendanceStatusEnum = [''PRESENT'', ''ABSENT'', ''LATE'', ''EXCUSED'']"

text \<open>Of an assessment, the gradebook reads the id, the type, the maximal score and the weight.\<close>

record Assessment =
  as_id :: string
  as_courseId :: string
  as_type :: string
  as_maxScore :: rat
  as_weight :: rat

section \<open>Gradebook (client)\<close>

subsection \<open>Letter grades\<close>

text \<open>
  \<^verbatim>\<open>
  const getLetterGrade = (percentage: number) => {
    if (percentage >= 90) return "A";
    if (percentage >= 80) return "B";
    if (percentage >= 70) return "C";
    if (percentage >= 60) return "D";
    return "F";
  };
  \<close>
  The thresholds are literals of the function: it has no boundaries parameter.
\<close>

definition getLetterGrade :: "rat \<Rightarrow> string" where
  "getLetterGrade percentage =
     (if percentage \<ge> 90 then ''A''
      else if percentage \<ge> 80 then ''B''
      else if percentage \<ge> 70 then ''C''
      else if percentage \<ge> 60 then ''D''
      else ''F'')"

text \<open>
  \<^verbatim>\<open>
  const calculateLetterGrade = (score: number, maxScore: number = 100) => {
    const percentage = (score / maxScore) * 100;
    if (percentage >= 90) return "A";
    ...
    return "F";
  };
  \<close>
  A division by zero gives Infinity, -Infinity or NaN in JavaScript; the comparisons then
  give "A" for Infinity and "F" for the other two.
\<close>

definition calculateLetterGrade :: "rounding \<Rightarrow> rat \<Rightarrow> rat \<Rightarrow> string" where
  "calculateLetterGrade rd score maxScore =
     (if maxScore = 0 then (if 0 < score then ''A'' else ''F'')
      else getLetterGrade (rd (rd (score / maxScore) * 100)))"

subsection \<open>The total of a student\<close>

text \<open>
  \<^verbatim>\<open>
  const [gradeChanges, setGradeChanges] = useState<Record<string, number>>({});
  const [filterType, setFilterType] = useState("");

  const filteredAssessments = assessments.filter(assessment =>
    !filterType || assessment.type === filterType
  );

  const getGradeForStudentAssessment = (studentId: string, assessmentId: string) => {
    return grades.find(grade =>
      grade.studentId === studentId && grade.assessmentId === assessmentId
    );
  };

  const calculateStudentTotal = (studentId: string) => {
    let totalScore = 0;
    let totalPossible = 0;

    filteredAssessments.forEach(assessment => {
      const grade = getGradeForStudentAssessment(studentId, assessment.id);
      const gradeKey = `${studentId}-${assessment.id}`;
      const currentScore = gradeChanges[gradeKey] ?? (grade ? Number(grade.score) : 0);

      totalScore += currentScore * Number(assessment.weight);
      totalPossible += Number(assessment.maxScore) * Number(assessment.weight);
    });

    return totalPossible > 0 ? (totalScore / totalPossible) * 100 : 0;
  };
  \<close>
  \<open>gradeChanges\<close>, \<open>filterType\<close>, \<open>assessments\<close> and \<open>grades\<close> are state of the
  component and are parameters here. \<open>gradeChanges\<close> holds the scores typed into the
  gradebook and not saved yet. \<open>Number\<close> of a decimal string is the double nearest to it.
\<close>

definition filteredAssessments :: "string \<Rightarrow> Assessment list \<Rightarrow> Assessment list" where
  "filteredAssessments filterType assessments =
     filter (\<lambda>assessment. filterType = [] \<or> as_type assessment = filterType) assessments"

definition getGradeForStudentAssessment :: "Grade list \<Rightarrow> string \<Rightarrow> string \<Rightarrow> Grade option" where
  "getGradeForStudentAssessment grades studentId assessmentId =
     find (\<lambda>grade. g_studentId grade = studentId \<and> g_assessmentId grade = assessmentId) grades"

definition gradeKey :: "string \<Rightarrow> string \<Rightarrow> string" where
  "gradeKey studentId assessmentId = studentId @ ''-'' @ assessmentId"

definition currentScore ::
  "rounding \<Rightarrow> (string \<rightharpoonup> rat) \<Rightarrow> Grade list \<Rightarrow> string \<Rightarrow> Assessment \<Rightarrow> rat" where
  "currentScore rd gradeChanges grades studentId assessment =
     (case gradeChanges (gradeKey studentId (as_id assessment)) of
        Some changed \<Rightarrow> changed
      | None \<Rightarrow>
          (case getGradeForStudentAssessment grades studentId (as_id assessment) of
             Some grade \<Rightarrow> rd (g_score grade)
           | None \<Rightarrow> 0))"

definition total_step ::
  "rounding \<Rightarrow> (string \<rightharpoonup> rat) \<Rightarrow> Grade list \<Rightarrow> string \<Rightarrow> Assessment \<Rightarrow> rat \<times> rat \<Rightarrow> rat \<times> rat" where
  "total_step rd gradeChanges grades studentId assessment totals =
     (case totals of (totalScore, totalPossible) \<Rightarrow>
        (rd (totalScore
             + rd (currentScore rd gradeChanges grades studentId assessment * rd (as_weight assessment))),
         rd (totalPossible + rd (rd (as_maxScore assessment) * rd (as_weight assessment)))))"

definition calculateStudentTotal ::
  "rounding \<Rightarrow> (string \<rightharpoonup> rat) \<Rightarrow> string \<Rightarrow> Grade list \<Rightarrow> Assessment list \<Rightarrow> string \<Rightarrow> rat" where
  "calculateStudentTotal rd gradeChanges filterType grades assessments studentId =
     (case fold (total_step rd gradeChanges grades studentId)
             (filteredAssessments filterType assessments) (0, 0) of
        (totalScore, totalPossible) \<Rightarrow>
          if 0 < totalPossible then rd (rd (totalScore / totalPossible) * 100) else 0)"

text \<open>
  To compare the function with, the formula of the specification over the rational
  numbers: the score that counts for an assessment is the unsaved score of
  \<open>gradeChanges\<close> when there is one, else the score of the grade found, else 0; the
  percentage is the weighted sum of these scores over the weighted sum of the maximal
  scores, times 100, and 0 when that denominator is not positive.
\<close>

definition scoreOf :: "(string \<rightharpoonup> rat) \<Rightarrow> Grade list \<Rightarrow> string \<Rightarrow> Assessment \<Rightarrow> rat" where
  "scoreOf gradeChanges grades studentId assessment =
     (case gradeChanges (gradeKey studentId (as_id assessment)) of
        Some changed \<Rightarrow> changed
      | None \<Rightarrow>
          (case getGradeForStudentAssessment grades studentId (as_id assessment) of
             Some grade \<Rightarrow> g_score grade
           | None \<Rightarrow> 0))"

definition percentage_formula ::
  "(string \<rightharpoonup> rat) \<Rightarrow> string \<Rightarrow> Grade list \<Rightarrow> Assessment list \<Rightarrow> string \<Rightarrow> rat" where
  "percentage_formula gradeChanges filterType grades assessments studentId =
     (let fa = filteredAssessments filterType assessments;
          totalEarned = (\<Sum>a\<leftarrow>fa. scoreOf gradeChanges grades studentId a * as_weight a);
          totalPossible = (\<Sum>a\<leftarrow>fa. as_maxScore a * as_weight a)
      in if 0 < totalPossible then totalEarned / totalPossible * 100 else 0)"

text \<open>
  A rounding to binary64 changes a number by a factor between \<open>1 - u\<close> and \<open>1 + u\<close>,
  where \<open>u = 2 ^ -53\<close>. \<open>within_roundings k a b\<close> says that \<open>b\<close> is \<open>a\<close> up to \<open>k\<close>
  such factors: \<open>a * (1 - u) ^ k \<le> b \<le> a / (1 - u) ^ k\<close>. A number is in the normal
  range when it is 0 or between \<open>2 ^ -100\<close> and \<open>2 ^ 100\<close>; the sums, products and
  quotients of such numbers neither overflow nor underflow in binary64.
\<close>

definition unit_roundoff :: rat where
  "unit_roundoff = 1 / 2 ^ 53"

definition within_roundings :: "nat \<Rightarrow> rat \<Rightarrow> rat \<Rightarrow> bool" where
  "within_roundings k a b \<longleftrightarrow>
     a * (1 - unit_roundoff) ^ k \<le> b \<and> b * (1 - unit_roundoff) ^ k \<le> a"

definition normal_range :: "rat \<Rightarrow> bool" where
  "normal_range v \<longleftrightarrow> v = 0 \<or> (1 / 2 ^ 100 \<le> v \<and> v \<le> 2 ^ 100)"

text \<open>
  The specification's \<open>letterGradeFor(percentage, boundaries)\<close> is \<open>getLetterGrade\<close> in
  the code, which has the percentage as its only parameter. The settings page shows five
  "Grade Boundaries" inputs (A 90, B 80, C 70, D 60, F 0) that no code reads. A
  boundaries table handed to the function is a surplus argument, and the function has no
  path that raises.
\<close>

datatype client_error = ConfigError

record boundaries =
  bA :: rat
  bB :: rat
  bC :: rat
  bD :: rat
  bF :: rat

definition letterGradeFor :: "rat \<Rightarrow> boundaries \<Rightarrow> client_error + string" where
  "letterGradeFor percentage table = Inr (getLetterGrade percentage)"

definition strictly_descending :: "boundaries \<Rightarrow> bool" where
  "strictly_descending table \<longleftrightarrow>
     bB table < bA table \<and> bC table < bB table \<and> bD table < bC table \<and> bF table < bD table"

subsection \<open>Status counts of the attendance form\<close>

text \<open>
  \<^verbatim>\<open>
  const getStatusCounts = () => {
    const counts = { PRESENT: 0, ABSENT: 0, LATE: 0, EXCUSED: 0 };
    Object.values(attendanceData).forEach(status => {
      if (status in counts) {
        counts[status as keyof typeof counts]++;
      }
    });
    return counts;
  };
  \<close>
  \<open>attendanceData\<close> is a \<open>Record<string, string>\<close> from student id to status, kept here
  as an association list in insertion order; \<open>Object.values\<close> is \<open>map snd\<close>. The counts
  object is a map from its own keys to their values.

  \<open>status in counts\<close> is true for the own keys of \<open>counts\<close> and for the names that
  every object inherits from \<open>Object.prototype\<close>. For an inherited name the value read by
  \<open>counts[status]++\<close> is a function (for \<open>__proto__\<close> the prototype object), whose
  numeric value is NaN; the assignment then gives \<open>counts\<close> an own key of that name with
  value NaN, except for \<open>__proto__\<close>, whose setter ignores a value that is not an object.
  NaN plus one is NaN.
\<close>

datatype count = Count nat | NaN

type_synonym counts = "string \<rightharpoonup> count"

definition counts0 :: counts where
  "counts0 = [''PRESENT'' \<mapsto> Count 0, ''ABSENT'' \<mapsto> Count 0, ''LATE'' \<mapsto> Count 0,
              ''EXCUSED'' \<mapsto> Count 0]"

definition Object_prototype :: "string list" where
  "Object_prototype =
     [''constructor'', ''__defineGetter__'', ''__defineSetter__'', ''hasOwnProperty'',
      ''__lookupGetter__'', ''__lookupSetter__'', ''isPrototypeOf'', ''propertyIsEnumerable'',
      ''toString'', ''valueOf'', ''__proto__'', ''toLocaleString'']"

definition count_status :: "string \<Rightarrow> counts \<Rightarrow> counts" where
  "count_status status counts =
     (case counts status of
        Some (Count n) \<Rightarrow> counts(status \<mapsto> Count (n + 1))
      | Some NaN \<Rightarrow> counts(status \<mapsto> NaN)
      | None \<Rightarrow>
          if status \<in> set Object_prototype \<and> status \<noteq> ''__proto__''
          then counts(status \<mapsto> NaN)
          else counts)"

definition getStatusCounts :: "(string \<times> string) list \<Rightarrow> counts" where
  "getStatusCounts attendanceData = fold count_status (map snd attendanceData) counts0"

section \<open>Dashboard statistics (server)\<close>

text \<open>
  \<^verbatim>\<open>
  const [attendanceData] = await db
    .select({
      present: sql<number>`count(*) filter (where status = 'PRESENT')`,
      total: sql<number>`count(*)`
    })
    .from(attendance)
    .where(sql`date >= current_date - interval '30 days'`);

  const attendanceRate = attendanceData?.total > 0 ?
    (attendanceData.present / attendanceData.total) * 100 : 0;

  return {
    ...
    attendanceRate: Math.round(attendanceRate * 10) / 10,
    ...
  };
  \<close>
\<close>

definition attendanceData_query :: "int \<Rightarrow> Attendance list \<Rightarrow> nat \<times> nat" where
  "attendanceData_query current_date rows =
     (let window = filter (\<lambda>r. current_date - 30 \<le> a_date r) rows
      in (length (filter (\<lambda>r. a_status r = ''PRESENT'') window), length window))"

definition attendanceRate :: "rounding \<Rightarrow> nat \<Rightarrow> nat \<Rightarrow> rat" where
  "attendanceRate rd n_present n_total =
     (if 0 < n_total then rd (rd (of_nat n_present / of_nat n_total) * 100) else 0)"

definition getDashboardStats_attendanceRate :: "rounding \<Rightarrow> int \<Rightarrow> Attendance list \<Rightarrow> rat" where
  "getDashboardStats_attendanceRate rd current_date rows =
     (case attendanceData_query current_date rows of
        (n_present, n_total) \<Rightarrow>
          rd (Math_round (rd (attendanceRate rd n_present n_total * 10)) / 10))"

section \<open>Storage (server)\<close>

subsection \<open>The database\<close>

text \<open>
  \<open>server/storage.ts\<close> reaches PostgreSQL through drizzle. The store holds the two
  tables the operations write, and of the tables they reference the columns that a
  foreign key or a cascade reads: the ids of users, students and courses, and the
  assessments. The tables are created from \<open>shared/schema.ts\<close> by \<open>npm run db:push\<close>.
\<close>

record db =
  users :: "string list"
  students :: "string list"
  courses :: "string list"
  assessments :: "Assessment list"
  attendance :: "Attendance list"
  grades :: "Grade list"

definition empty_db :: db where
  "empty_db = \<lparr>users = [], students = [], courses = [], assessments = [],
                attendance = [], grades = []\<rparr>"

text \<open>
  What PostgreSQL does with a statement depends on the unique indexes of the table.
  \<open>INSERT ... ON CONFLICT (columns) DO UPDATE\<close> needs a unique index on exactly these
  columns to detect the conflict (the arbiter index); without one the statement is
  rejected ("there is no unique or exclusion constraint matching the ON CONFLICT
  specification") and writes nothing. With the index, an insert or update that would
  give two rows the same key is rejected as well. The catalog says, for the two
  conflict targets of \<open>storage.ts\<close>, whether the database has the index.

  \<open>schema_ts\<close> is the catalog of the tables as \<open>shared/schema.ts\<close> declares them:
  \<open>attendance\<close> and \<open>grades\<close> have a primary key on \<open>id\<close>, foreign keys, and no
  unique constraint on \<open>(student_id, course_id, date)\<close> or on
  \<open>(student_id, assessment_id)\<close>. (The same file declares \<open>.unique()\<close> on
  \<open>users.email\<close>, \<open>students.student_id\<close> and \<open>courses.code\<close>.)
\<close>

record catalog =
  attendance_key_index :: bool
  grades_key_index :: bool

definition schema_ts :: catalog where
  "schema_ts = \<lparr>attendance_key_index = False, grades_key_index = False\<rparr>"

datatype error =
    NoArbiterIndex
  | UniqueViolation
  | ForeignKeyViolation
  | NumericOverflow
  | InvalidEnumValue
  | NoValuesToSet

text \<open>
  A \<open>decimal(5, 2)\<close> column rounds a value to two decimal places (a tie away from zero)
  and rejects one whose rounded absolute value is not below 1000.
\<close>

definition round_half_away :: "rat \<Rightarrow> int" where
  "round_half_away x = (if 0 \<le> x then \<lfloor>x + 1 / 2\<rfloor> else - \<lfloor>- x + 1 / 2\<rfloor>)"

definition decimal_5_2 :: "rat \<Rightarrow> error + rat" where
  "decimal_5_2 x =
     (let r = of_int (round_half_away (x * 100)) / 100
      in if \<bar>r\<bar> < 1000 then Inr r else Inl NumericOverflow)"

text \<open>
  An optional, nullable field of an input object is absent (\<open>undefined\<close>), \<open>null\<close> or a
  value. In the values of an insert an absent field takes the column's default, here
  NULL. From a \<open>set\<close> clause drizzle drops an absent field, so the column keeps its value.
\<close>

datatype 'a field = Undefined | Null | Value 'a

definition insert_value :: "'a field \<Rightarrow> 'a option" where
  "insert_value f = (case f of Value v \<Rightarrow> Some v | _ \<Rightarrow> None)"

definition set_value :: "'a field \<Rightarrow> 'a option \<Rightarrow> 'a option" where
  "set_value f old = (case f of Undefined \<Rightarrow> old | Null \<Rightarrow> None | Value v \<Rightarrow> Some v)"

definition set_required :: "'a option \<Rightarrow> 'a \<Rightarrow> 'a" where
  "set_required f old = (case f of None \<Rightarrow> old | Some v \<Rightarrow> v)"

subsection \<open>Grades\<close>

text \<open>
  \<open>InsertGrade\<close> is the type of \<open>insertGradeSchema\<close>, the table's insert schema without
  \<open>id\<close>, \<open>gradedAt\<close> and \<open>updatedAt\<close>. The schema checks that the fields are there and
  have their types, which the record expresses; it has no check on the value of
  \<open>score\<close>.
\<close>

record InsertGrade =
  ig_studentId :: string
  ig_assessmentId :: string
  ig_score :: rat
  ig_letterGrade :: "string field"
  ig_feedback :: "string field"
  ig_gradedBy :: string

record PartialInsertGrade =
  pg_studentId :: "string option"
  pg_assessmentId :: "string option"
  pg_score :: "rat option"
  pg_letterGrade :: "string field"
  pg_feedback :: "string field"
  pg_gradedBy :: "string option"

definition g_key :: "Grade \<Rightarrow> string \<times> string" where
  "g_key r = (g_studentId r, g_assessmentId r)"

definition grade_fk_ok :: "db \<Rightarrow> Grade \<Rightarrow> bool" where
  "grade_fk_ok d r \<longleftrightarrow>
     g_studentId r \<in> set (students d) \<and>
     g_assessmentId r \<in> set (map as_id (assessments d)) \<and>
     g_gradedBy r \<in> set (users d)"

text \<open>
  \<^verbatim>\<open>
  async createGrade(grade: InsertGrade): Promise<Grade> {
    const [newGrade] = await db
      .insert(grades)
      .values(grade)
      .onConflictDoUpdate({
        target: [grades.studentId, grades.assessmentId],
        set: {
          score: grade.score,
          letterGrade: grade.letterGrade,
          feedback: grade.feedback,
          gradedBy: grade.gradedBy,
          updatedAt: new Date(),
        },
      })
      .returning();
    return newGrade;
  }
  \<close>
  \<open>now\<close> is the time of the call, \<open>uuid\<close> the value of \<open>gen_random_uuid()\<close>. The
  constraints are checked on the row that the statement writes, and a statement that
  fails leaves the database as it was.
\<close>

definition grade_values :: "timestamp \<Rightarrow> string \<Rightarrow> InsertGrade \<Rightarrow> rat \<Rightarrow> Grade" where
  "grade_values now uuid grade score =
     \<lparr>g_id = uuid, g_studentId = ig_studentId grade, g_assessmentId = ig_assessmentId grade,
      g_score = score, g_letterGrade = insert_value (ig_letterGrade grade),
      g_feedback = insert_value (ig_feedback grade), g_gradedBy = ig_gradedBy grade,
      g_gradedAt = Some now, g_updatedAt = Some now\<rparr>"

definition grade_conflict_set :: "timestamp \<Rightarrow> InsertGrade \<Rightarrow> rat \<Rightarrow> Grade \<Rightarrow> Grade" where
  "grade_conflict_set now grade score r =
     r\<lparr>g_score := score,
       g_letterGrade := set_value (ig_letterGrade grade) (g_letterGrade r),
       g_feedback := set_value (ig_feedback grade) (g_feedback r),
       g_gradedBy := ig_gradedBy grade,
       g_updatedAt := Some now\<rparr>"

definition createGrade ::
  "catalog \<Rightarrow> timestamp \<Rightarrow> string \<Rightarrow> InsertGrade \<Rightarrow> db \<Rightarrow> (error + Grade) \<times> db" where
  "createGrade cat now uuid grade d =
     (if \<not> grades_key_index cat then (Inl NoArbiterIndex, d)
      else case decimal_5_2 (ig_score grade) of
        Inl e \<Rightarrow> (Inl e, d)
      | Inr score \<Rightarrow>
          (case find (\<lambda>r. g_key r = (ig_studentId grade, ig_assessmentId grade)) (grades d) of
             None \<Rightarrow>
               (let newGrade = grade_values now uuid grade score
                in if uuid \<in> set (map g_id (grades d)) then (Inl UniqueViolation, d)
                   else if \<not> grade_fk_ok d newGrade then (Inl ForeignKeyViolation, d)
                   else (Inr newGrade, d\<lparr>grades := grades d @ [newGrade]\<rparr>))
           | Some old \<Rightarrow>
               (let newGrade = grade_conflict_set now grade score old
                in if \<not> grade_fk_ok d newGrade then (Inl ForeignKeyViolation, d)
                   else (Inr newGrade,
                         d\<lparr>grades := map (\<lambda>r. if g_key r = g_key old
                                              then grade_conflict_set now grade score r else r)
                                       (grades d)\<rparr>))))"

text \<open>
  \<^verbatim>\<open>
  async updateGrade(id: string, grade: Partial<InsertGrade>): Promise<Grade> {
    const [updatedGrade] = await db
      .update(grades)
      .set({ ...grade, updatedAt: new Date() })
      .where(eq(grades.id, id))
      .returning();
    return updatedGrade;
  }

  async deleteGrade(id: string): Promise<void> {
    await db.delete(grades).where(eq(grades.id, id));
  }
  \<close>
  The result of \<open>updateGrade\<close> is \<open>undefined\<close> (here \<open>None\<close>) when no row has the id.
\<close>

definition grade_update_set :: "timestamp \<Rightarrow> PartialInsertGrade \<Rightarrow> rat option \<Rightarrow> Grade \<Rightarrow> Grade" where
  "grade_update_set now grade score r =
     r\<lparr>g_studentId := set_required (pg_studentId grade) (g_studentId r),
       g_assessmentId := set_required (pg_assessmentId grade) (g_assessmentId r),
       g_score := set_required score (g_score r),
       g_letterGrade := set_value (pg_letterGrade grade) (g_letterGrade r),
       g_feedback := set_value (pg_feedback grade) (g_feedback r),
       g_gradedBy := set_required (pg_gradedBy grade) (g_gradedBy r),
       g_updatedAt := Some now\<rparr>"

definition updateGrade ::
  "catalog \<Rightarrow> timestamp \<Rightarrow> string \<Rightarrow> PartialInsertGrade \<Rightarrow> db \<Rightarrow> (error + Grade option) \<times> db" where
  "updateGrade cat now ident grade d =
     (case (case pg_score grade of
              None \<Rightarrow> Inr None
            | Some x \<Rightarrow> (case decimal_5_2 x of Inl e \<Rightarrow> Inl e | Inr v \<Rightarrow> Inr (Some v))) of
        Inl e \<Rightarrow> (Inl e, d)
      | Inr score \<Rightarrow>
          (let rows = map (\<lambda>r. if g_id r = ident then grade_update_set now grade score r else r)
                          (grades d)
           in if \<not> (\<forall>r \<in> set rows. g_id r = ident \<longrightarrow> grade_fk_ok d r)
              then (Inl ForeignKeyViolation, d)
              else if grades_key_index cat \<and> \<not> distinct (map g_key rows)
              then (Inl UniqueViolation, d)
              else (Inr (find (\<lambda>r. g_id r = ident) rows), d\<lparr>grades := rows\<rparr>)))"

definition deleteGrade :: "string \<Rightarrow> db \<Rightarrow> db" where
  "deleteGrade ident d = d\<lparr>grades := filter (\<lambda>r. g_id r \<noteq> ident) (grades d)\<rparr>"

subsection \<open>Attendance\<close>

record InsertAttendance =
  ia_studentId :: string
  ia_courseId :: string
  ia_date :: int
  ia_status :: string
  ia_notes :: "string field"
  ia_markedBy :: string

record PartialInsertAttendance =
  pa_studentId :: "string option"
  pa_courseId :: "string option"
  pa_date :: "int option"
  pa_status :: "string option"
  pa_notes :: "string field"
  pa_markedBy :: "string option"

definition a_key :: "Attendance \<Rightarrow> string \<times> string \<times> int" where
  "a_key r = (a_studentId r, a_courseId r, a_date r)"

definition attendance_fk_ok :: "db \<Rightarrow> Attendance \<Rightarrow> bool" where
  "attendance_fk_ok d r \<longleftrightarrow>
     a_studentId r \<in> set (students d) \<and>
     a_courseId r \<in> set (courses d) \<and>
     a_markedBy r \<in> set (users d)"

text \<open>
  \<^verbatim>\<open>
  async markAttendance(attendanceData: InsertAttendance): Promise<Attendance> {
    const [newAttendance] = await db
      .insert(attendance)
      .values(attendanceData)
      .onConflictDoUpdate({
        target: [attendance.studentId, attendance.courseId, attendance.date],
        set: {
          status: attendanceData.status,
          notes: attendanceData.notes,
          markedBy: attendanceData.markedBy,
          markedAt: new Date(),
        },
      })
      .returning();
    return newAttendance;
  }
  \<close>
\<close>

definition attendance_values :: "timestamp \<Rightarrow> string \<Rightarrow> InsertAttendance \<Rightarrow> Attendance" where
  "attendance_values now uuid attendanceData =
     \<lparr>a_id = uuid, a_studentId = ia_studentId attendanceData,
      a_courseId = ia_courseId attendanceData, a_date = ia_date attendanceData,
      a_status = ia_status attendanceData, a_notes = insert_value (ia_notes attendanceData),
      a_markedBy = ia_markedBy attendanceData, a_markedAt = Some now\<rparr>"

definition attendance_conflict_set :: "timestamp \<Rightarrow> InsertAttendance \<Rightarrow> Attendance \<Rightarrow> Attendance" where
  "attendance_conflict_set now attendanceData r =
     r\<lparr>a_status := ia_status attendanceData,
       a_notes := set_value (ia_notes attendanceData) (a_notes r),
       a_markedBy := ia_markedBy attendanceData,
       a_markedAt := Some now\<rparr>"

definition markAttendance ::
  "catalog \<Rightarrow> timestamp \<Rightarrow> string \<Rightarrow> InsertAttendance \<Rightarrow> db \<Rightarrow> (error + Attendance) \<times> db" where
  "markAttendance cat now uuid attendanceData d =
     (if \<not> attendance_key_index cat then (Inl NoArbiterIndex, d)
      else if ia_status attendanceData \<notin> set attendanceStatusEnum then (Inl InvalidEnumValue, d)
      else
        (case find (\<lambda>r. a_key r = (ia_studentId attendanceData, ia_courseId attendanceData,
                                    ia_date attendanceData)) (attendance d) of
           None \<Rightarrow>
             (let newAttendance = attendance_values now uuid attendanceData
              in if uuid \<in> set (map a_id (attendance d)) then (Inl UniqueViolation, d)
                 else if \<not> attendance_fk_ok d newAttendance then (Inl ForeignKeyViolation, d)
                 else (Inr newAttendance, d\<lparr>attendance := attendance d @ [newAttendance]\<rparr>))
         | Some old \<Rightarrow>
             (let newAttendance = attendance_conflict_set now attendanceData old
              in if \<not> attendance_fk_ok d newAttendance then (Inl ForeignKeyViolation, d)
                 else (Inr newAttendance,
                       d\<lparr>attendance := map (\<lambda>r. if a_key r = a_key old
                                                then attendance_conflict_set now attendanceData r
                                                else r)
                                           (attendance d)\<rparr>))))"

text \<open>
  \<^verbatim>\<open>
  async updateAttendance(id: string, attendanceData: Partial<InsertAttendance>): Promise<Attendance> {
    const [updatedAttendance] = await db
      .update(attendance)
      .set(attendanceData)
      .where(eq(attendance.id, id))
      .returning();
    return updatedAttendance;
  }
  \<close>
  drizzle refuses a \<open>set\<close> clause in which every field is absent ("No values to set").
\<close>

definition attendance_update_set :: "PartialInsertAttendance \<Rightarrow> Attendance \<Rightarrow> Attendance" where
  "attendance_update_set attendanceData r =
     r\<lparr>a_studentId := set_required (pa_studentId attendanceData) (a_studentId r),
       a_courseId := set_required (pa_courseId attendanceData) (a_courseId r),
       a_date := set_required (pa_date attendanceData) (a_date r),
       a_status := set_required (pa_status attendanceData) (a_status r),
       a_notes := set_value (pa_notes attendanceData) (a_notes r),
       a_markedBy := set_required (pa_markedBy attendanceData) (a_markedBy r)\<rparr>"

definition no_values :: "PartialInsertAttendance \<Rightarrow> bool" where
  "no_values attendanceData \<longleftrightarrow>
     pa_studentId attendanceData = None \<and> pa_courseId attendanceData = None \<and>
     pa_date attendanceData = None \<and> pa_status attendanceData = None \<and>
     pa_notes attendanceData = Undefined \<and> pa_markedBy attendanceData = None"

definition updateAttendance ::
  "catalog \<Rightarrow> string \<Rightarrow> PartialInsertAttendance \<Rightarrow> db \<Rightarrow> (error + Attendance option) \<times> db" where
  "updateAttendance cat ident attendanceData d =
     (if no_values attendanceData then (Inl NoValuesToSet, d)
      else if (case pa_status attendanceData of
                 None \<Rightarrow> False | Some st \<Rightarrow> st \<notin> set attendanceStatusEnum)
      then (Inl InvalidEnumValue, d)
      else
        (let rows = map (\<lambda>r. if a_id r = ident then attendance_update_set attendanceData r else r)
                        (attendance d)
         in if \<not> (\<forall>r \<in> set rows. a_id r = ident \<longrightarrow> attendance_fk_ok d r)
            then (Inl ForeignKeyViolation, d)
            else if attendance_key_index cat \<and> \<not> distinct (map a_key rows)
            then (Inl UniqueViolation, d)
            else (Inr (find (\<lambda>r. a_id r = ident) rows), d\<lparr>attendance := rows\<rparr>)))"

subsection \<open>The referenced tables\<close>

text \<open>
  Users, students, courses and assessments are created through \<open>upsertUser\<close>,
  \<open>createStudent\<close>, \<open>createCourse\<close> and \<open>createAssessment\<close>, plain inserts of a row
  with a generated id; the columns of these rows that the store leaves out can make an
  insert fail (a student number or a course code taken), which is an error and changes
  nothing. \<open>updateAssessment\<close> can move an assessment to another course.
  \<open>updateStudent\<close>, \<open>updateCourse\<close> and the enrollment operations write only columns
  and tables that the store leaves out. The deletes cascade along the foreign keys
  declared with \<open>onDelete: 'cascade'\<close>:
  \<^verbatim>\<open>
  async deleteStudent(id: string): Promise<void> {
    await db.delete(students).where(eq(students.id, id));
  }
  async deleteCourse(id: string): Promise<void> {
    await db.delete(courses).where(eq(courses.id, id));
  }
  async deleteAssessment(id: string): Promise<void> {
    await db.delete(assessments).where(eq(assessments.id, id));
  }
  \<close>
\<close>

definition upsertUser :: "string \<Rightarrow> db \<Rightarrow> db" where
  "upsertUser ident d = (if ident \<in> set (users d) then d else d\<lparr>users := users d @ [ident]\<rparr>)"

definition createStudent :: "string \<Rightarrow> string \<Rightarrow> db \<Rightarrow> (error + string) \<times> db" where
  "createStudent uuid userId d =
     (if uuid \<in> set (students d) then (Inl UniqueViolation, d)
      else if userId \<notin> set (users d) then (Inl ForeignKeyViolation, d)
      else (Inr uuid, d\<lparr>students := students d @ [uuid]\<rparr>))"

definition createCourse :: "string \<Rightarrow> string option \<Rightarrow> db \<Rightarrow> (error + string) \<times> db" where
  "createCourse uuid teacherId d =
     (if uuid \<in> set (courses d) then (Inl UniqueViolation, d)
      else if (case teacherId of None \<Rightarrow> False | Some t \<Rightarrow> t \<notin> set (users d))
      then (Inl ForeignKeyViolation, d)
      else (Inr uuid, d\<lparr>courses := courses d @ [uuid]\<rparr>))"

definition createAssessment :: "string \<Rightarrow> Assessment \<Rightarrow> db \<Rightarrow> (error + Assessment) \<times> db" where
  "createAssessment uuid assessment d =
     (let newAssessment = assessment\<lparr>as_id := uuid\<rparr>
      in if uuid \<in> set (map as_id (assessments d)) then (Inl UniqueViolation, d)
         else if as_courseId assessment \<notin> set (courses d) then (Inl ForeignKeyViolation, d)
         else (Inr newAssessment, d\<lparr>assessments := assessments d @ [newAssessment]\<rparr>))"

record PartialInsertAssessment =
  pas_courseId :: "string option"
  pas_type :: "string option"
  pas_maxScore :: "rat option"
  pas_weight :: "rat option"

definition assessment_update_set :: "PartialInsertAssessment \<Rightarrow> Assessment \<Rightarrow> Assessment" where
  "assessment_update_set assessment r =
     r\<lparr>as_courseId := set_required (pas_courseId assessment) (as_courseId r),
       as_type := set_required (pas_type assessment) (as_type r),
       as_maxScore := set_required (pas_maxScore assessment) (as_maxScore r),
       as_weight := set_required (pas_weight assessment) (as_weight r)\<rparr>"

definition updateAssessment ::
  "string \<Rightarrow> PartialInsertAssessment \<Rightarrow> db \<Rightarrow> (error + Assessment option) \<times> db" where
  "updateAssessment ident assessment d =
     (let rows = map (\<lambda>r. if as_id r = ident then assessment_update_set assessment r else r)
                     (assessments d)
      in if \<not> (\<forall>r \<in> set rows. as_id r = ident \<longrightarrow> as_courseId r \<in> set (courses d))
         then (Inl ForeignKeyViolation, d)
         else (Inr (find (\<lambda>r. as_id r = ident) rows), d\<lparr>assessments := rows\<rparr>))"

definition deleteAssessment :: "string \<Rightarrow> db \<Rightarrow> db" where
  "deleteAssessment ident d =
     d\<lparr>assessments := filter (\<lambda>a. as_id a \<noteq> ident) (assessments d),
       grades := filter (\<lambda>r. g_assessmentId r \<noteq> ident) (grades d)\<rparr>"

definition deleteStudent :: "string \<Rightarrow> db \<Rightarrow> db" where
  "deleteStudent ident d =
     d\<lparr>students := filter (\<lambda>s. s \<noteq> ident) (students d),
       attendance := filter (\<lambda>r. a_studentId r \<noteq> ident) (attendance d),
       grades := filter (\<lambda>r. g_studentId r \<noteq> ident) (grades d)\<rparr>"

definition deleteCourse :: "string \<Rightarrow> db \<Rightarrow> db" where
  "deleteCourse ident d =
     (let gone = map as_id (filter (\<lambda>a. as_courseId a = ident) (assessments d))
      in d\<lparr>courses := filter (\<lambda>c. c \<noteq> ident) (courses d),
           assessments := filter (\<lambda>a. as_courseId a \<noteq> ident) (assessments d),
           attendance := filter (\<lambda>r. a_courseId r \<noteq> ident) (attendance d),
           grades := filter (\<lambda>r. g_assessmentId r \<notin> set gone) (grades d)\<rparr>)"

subsection \<open>Reachable states\<close>

text \<open>
  The states of a database with catalog \<open>cat\<close> that the operations reach from the empty
  one.
\<close>

inductive reachable :: "catalog \<Rightarrow> db \<Rightarrow> bool" for cat :: catalog where
  r_empty: "reachable cat empty_db"
| r_upsertUser: "reachable cat d \<Longrightarrow> reachable cat (upsertUser ident d)"
| r_createStudent: "reachable cat d \<Longrightarrow> reachable cat (snd (createStudent uuid userId d))"
| r_createCourse: "reachable cat d \<Longrightarrow> reachable cat (snd (createCourse uuid teacherId d))"
| r_createAssessment:
    "reachable cat d \<Longrightarrow> reachable cat (snd (createAssessment uuid assessment d))"
| r_updateAssessment:
    "reachable cat d \<Longrightarrow> reachable cat (snd (updateAssessment ident passessment d))"
| r_createGrade: "reachable cat d \<Longrightarrow> reachable cat (snd (createGrade cat now uuid grade d))"
| r_updateGrade: "reachable cat d \<Longrightarrow> reachable cat (snd (updateGrade cat now ident pgrade d))"
| r_deleteGrade: "reachable cat d \<Longrightarrow> reachable cat (deleteGrade ident d)"
| r_markAttendance:
    "reachable cat d \<Longrightarrow> reachable cat (snd (markAttendance cat now uuid attendanceData d))"
| r_updateAttendance:
    "reachable cat d \<Longrightarrow> reachable cat (snd (updateAttendance cat ident pattendance d))"
| r_deleteAssessment: "reachable cat d \<Longrightarrow> reachable cat (deleteAssessment ident d)"
| r_deleteStudent: "reachable cat d \<Longrightarrow> reachable cat (deleteStudent ident d)"
| r_deleteCourse: "reachable cat d \<Longrightarrow> reachable cat (deleteCourse ident d)"

subsection \<open>The invariant of the store\<close>

text \<open>
  A table whose conflict target has no unique index stays empty, and no two rows of a
  table agree on the key.
\<close>

definition store_inv :: "catalog \<Rightarrow> db \<Rightarrow> bool" where
  "store_inv cat d \<longleftrightarrow>
     (grades_key_index cat \<or> grades d = []) \<and>
     (attendance_key_index cat \<or> attendance d = []) \<and>
     distinct (map g_key (grades d)) \<and>
     distinct (map a_key (attendance d))"

section \<open>Example data\<close>

text \<open>A session of ten students: six present, two absent, one late, one excused.\<close>

definition session10 :: "(string \<times> string) list" where
  "session10 =
     [(''s01'', ''PRESENT''), (''s02'', ''ABSENT''), (''s03'', ''PRESENT''), (''s04'', ''LATE''),
      (''s05'', ''PRESENT''), (''s06'', ''PRESENT''), (''s07'', ''EXCUSED''), (''s08'', ''ABSENT''),
      (''s09'', ''PRESENT''), (''s10'', ''PRESENT'')]"

text \<open>
  A midterm (maximal score 100, weight 1) and a quiz (maximal score 50, weight 0.5) of
  one course; student \<open>s1\<close> has 80 on the midterm and no grade on the quiz.
\<close>

definition midterm :: Assessment where
  "midterm = \<lparr>as_id = ''a1'', as_courseId = ''c1'', as_type = ''MIDTERM'',
              as_maxScore = 100, as_weight = 1\<rparr>"

definition quiz :: Assessment where
  "quiz = \<lparr>as_id = ''a2'', as_courseId = ''c1'', as_type = ''QUIZ'',
           as_maxScore = 50, as_weight = 1 / 2\<rparr>"

definition midterm_grade :: Grade where
  "midterm_grade = \<lparr>g_id = ''g1'', g_studentId = ''s1'', g_assessmentId = ''a1'', g_score = 80,
                     g_letterGrade = None, g_feedback = None, g_gradedBy = ''u1'',
                     g_gradedAt = Some 1, g_updatedAt = Some 1\<rparr>"

text \<open>The midterm graded 57, and an unsaved score of 40 for the quiz.\<close>

definition midterm_grade57 :: Grade where
  "midterm_grade57 = midterm_grade\<lparr>g_score := 57\<rparr>"

definition quiz_unsaved :: "string \<rightharpoonup> rat" where
  "quiz_unsaved = [''s1-a2'' \<mapsto> 40]"

text \<open>A boundaries table with the thresholds of A and B exchanged.\<close>

definition inverted_boundaries :: boundaries where
  "inverted_boundaries = \<lparr>bA = 80, bB = 90, bC = 70, bD = 60, bF = 0\<rparr>"

text \<open>
  A database in which the two unique indexes exist, to compare with \<open>schema_ts\<close>.
\<close>

definition with_key_indexes :: catalog where
  "with_key_indexes = \<lparr>attendance_key_index = True, grades_key_index = True\<rparr>"

text \<open>
  One user, one student, one course and the midterm, created through the operations;
  then a grade of 85 and a grade of 90 for the same student and assessment, and an
  attendance PRESENT and an attendance ABSENT for the same student, course and day.
\<close>

definition seeded_db :: db where
  "seeded_db =
     snd (createAssessment ''a1'' midterm
       (snd (createCourse ''c1'' None
         (snd (createStudent ''s1'' ''u1''
           (upsertUser ''u1'' empty_db))))))"

definition grade85 :: InsertGrade where
  "grade85 = \<lparr>ig_studentId = ''s1'', ig_assessmentId = ''a1'', ig_score = 85,
               ig_letterGrade = Value ''B'', ig_feedback = Undefined, ig_gradedBy = ''u1''\<rparr>"

definition grade90 :: InsertGrade where
  "grade90 = grade85\<lparr>ig_score := 90, ig_letterGrade := Value ''A''\<rparr>"

definition negative_grade :: InsertGrade where
  "negative_grade = grade85\<lparr>ig_score := - 5\<rparr>"

definition dangling_grade :: InsertGrade where
  "dangling_grade = grade85\<lparr>ig_studentId := ''nobody''\<rparr>"

definition present_s1 :: InsertAttendance where
  "present_s1 = \<lparr>ia_studentId = ''s1'', ia_courseId = ''c1'', ia_date = 20000,
                  ia_status = ''PRESENT'', ia_notes = Undefined, ia_markedBy = ''u1''\<rparr>"

definition absent_s1 :: InsertAttendance where
  "absent_s1 = present_s1\<lparr>ia_status := ''ABSENT''\<rparr>"

definition once_graded_db :: db where
  "once_graded_db = snd (createGrade with_key_indexes 10 ''g1'' grade85 seeded_db)"

definition graded_db :: db where
  "graded_db = snd (createGrade with_key_indexes 11 ''g2'' grade90 once_graded_db)"

definition once_marked_db :: db where
  "once_marked_db = snd (markAttendance with_key_indexes 12 ''t1'' present_s1 graded_db)"

definition recorded_db :: db where
  "recorded_db = snd (markAttendance with_key_indexes 13 ''t2'' absent_s1 once_marked_db)"

text \<open>
  Eighty attendance rows of one course on day 20000, one per student, the first 23
  PRESENT and the other 57 ABSENT.
\<close>

definition two_digits :: "nat \<Rightarrow> string" where
  "two_digits n = [char_of (48 + n div 10), char_of (48 + n mod 10)]"

definition attendance_of :: "string \<Rightarrow> nat \<Rightarrow> Attendance" where
  "attendance_of status n =
     \<lparr>a_id = ''t'' @ two_digits n, a_studentId = ''s'' @ two_digits n, a_courseId = ''c1'',
      a_date = 20000, a_status = status, a_notes = None, a_markedBy = ''u1'',
      a_markedAt = Some 1\<rparr>"

definition session80 :: "Attendance list" where
  "session80 = map (attendance_of ''PRESENT'') [0..<23] @ map (attendance_of ''ABSENT'') [23..<80]"

text \<open>Thirty attendance rows, 27 of them PRESENT.\<close>

definition session30 :: "Attendance list" where
  "session30 = map (attendance_of ''PRESENT'') [0..<27] @ map (attendance_of ''LATE'') [27..<30]"

section \<open>Properties\<close>

subsection \<open>Evaluation\<close>

lemma floor_divide_numeral_rat:
  "\<lfloor>numeral a / numeral b :: rat\<rfloor> = numeral a div numeral b"
  using floor_divide_of_int_eq [of "numeral a" "numeral b", where ?'a = rat] by simp

lemma floor_half_rat: "\<lfloor>1 / 2 :: rat\<rfloor> = 0"
  by (simp add: floor_eq_iff)

lemma find_Some_key: "find (\<lambda>r. f r = k) rows = Some old \<Longrightarrow> f old = k"
  by (auto simp: find_Some_iff)

lemma find_Some_mem: "find P rows = Some old \<Longrightarrow> old \<in> set rows \<and> P old"
  by (auto simp: find_Some_iff)

subsection \<open>Rounding to binary64\<close>

lemma scale_up_steps:
  "0 < x \<Longrightarrow> 2 ^ 52 \<le> x * 2 ^ k \<Longrightarrow> x * 2 ^ k < 2 ^ 53 \<Longrightarrow> scale_up x e = e - int k"
proof (induction k arbitrary: x e)
  case 0
  then show ?case by (simp add: scale_up.simps)
next
  case (Suc k)
  have "(1::rat) \<le> 2 ^ k" by simp
  hence "x * 2 \<le> x * 2 * 2 ^ k" using Suc.prems(1) by simp
  hence small: "x < 2 ^ 52" using Suc.prems(3) by simp
  have "scale_up (2 * x) (e - 1) = e - 1 - int k"
    using Suc.prems by (intro Suc.IH) (simp_all add: mult.assoc mult.commute mult.left_commute)
  then show ?case using small Suc.prems(1) by (subst scale_up.simps) simp
qed

lemma exponent_small:
  assumes "0 < x" "2 ^ 52 \<le> x * 2 ^ k" "x * 2 ^ k < 2 ^ 53"
  shows "exponent x = - int k"
proof (cases "x < 2 ^ 52")
  case True
  then show ?thesis using scale_up_steps [OF assms, of 0] by (simp add: exponent_def)
next
  case False
  have "k = 0"
  proof (rule ccontr)
    assume "k \<noteq> 0"
    then obtain j where "k = Suc j" by (cases k) auto
    hence "x * 2 \<le> x * 2 ^ k" using assms(1) by simp
    thus False using False assms(3) by simp
  qed
  then show ?thesis using assms False by (simp add: exponent_def scale_down.simps)
qed

lemma binary64_small:
  assumes "0 < x" "2 ^ 52 \<le> x * 2 ^ k" "x * 2 ^ k < 2 ^ 53"
  shows "binary64 x = of_int (round_half_even (x * 2 ^ k)) / 2 ^ k"
  using assms(1) by (simp add: binary64_def exponent_small [OF assms] Let_def power_int_minus field_simps)

lemmas binary64_eval = round_half_even_def Let_def floor_divide_numeral_rat

lemma b64_23_80: "binary64 (23 / 80) = 2589569785738035 / 9007199254740992"
  by (subst binary64_small [where k = 54]) (simp_all add: binary64_eval)

lemma b64_23_80_100:
  "binary64 (64739244643450875 / 2251799813685248) = 8092405580431359 / 281474976710656"
  by (subst binary64_small [where k = 48]) (simp_all add: binary64_eval)

lemma b64_23_80_1000:
  "binary64 (40462027902156795 / 140737488355328) = 5057753487769599 / 17592186044416"
  by (subst binary64_small [where k = 44]) (simp_all add: binary64_eval)

lemma b64_287_10: "binary64 (287 / 10) = 8078331831595827 / 281474976710656"
  by (subst binary64_small [where k = 48]) (simp_all add: binary64_eval)

lemma b64_288_10: "binary64 (288 / 10) = 8106479329266893 / 281474976710656"
  by (subst binary64_small [where k = 48]) (simp_all add: binary64_eval)

lemma attendanceRate_binary64_23_80:
  "attendanceRate binary64 23 80 = 8092405580431359 / 281474976710656"
  by (simp add: attendanceRate_def b64_23_80 b64_23_80_100)

lemma rate_binary64_23_80:
  "binary64 (Math_round (binary64 (attendanceRate binary64 23 80 * 10)) / 10)
     = 8078331831595827 / 281474976710656"
  by (simp add: attendanceRate_binary64_23_80 b64_23_80_1000 Math_round_def
      floor_divide_numeral_rat b64_287_10)

lemma round_half_even_of_int [simp]: "round_half_even (of_int n) = n"
  by (simp add: round_half_even_def)

lemma binary64_exists_k:
  fixes x :: rat
  shows "0 < x \<longrightarrow> x < 2 ^ 53 \<longrightarrow> (\<exists>k. 2 ^ 52 \<le> x * 2 ^ k \<and> x * 2 ^ k < 2 ^ 53)"
proof (rule scale_up.induct
    [of "\<lambda>x e. 0 < x \<longrightarrow> x < 2 ^ 53 \<longrightarrow> (\<exists>k. 2 ^ 52 \<le> x * 2 ^ k \<and> x * 2 ^ k < 2 ^ 53)" x 0])
  fix x :: rat and e :: int
  assume IH: "0 < x \<and> x < 2 ^ 52 \<Longrightarrow>
     0 < 2 * x \<longrightarrow> 2 * x < 2 ^ 53 \<longrightarrow> (\<exists>k. 2 ^ 52 \<le> 2 * x * 2 ^ k \<and> 2 * x * 2 ^ k < 2 ^ 53)"
  show "0 < x \<longrightarrow> x < 2 ^ 53 \<longrightarrow> (\<exists>k. 2 ^ 52 \<le> x * 2 ^ k \<and> x * 2 ^ k < 2 ^ 53)"
  proof (intro impI)
    assume pos: "0 < x" and lt: "x < 2 ^ 53"
    show "\<exists>k. 2 ^ 52 \<le> x * 2 ^ k \<and> x * 2 ^ k < 2 ^ 53"
    proof (cases "x < 2 ^ 52")
      case True
      with IH pos obtain k where "2 ^ 52 \<le> 2 * x * 2 ^ k \<and> 2 * x * 2 ^ k < 2 ^ 53" by auto
      hence "2 ^ 52 \<le> x * 2 ^ Suc k \<and> x * 2 ^ Suc k < 2 ^ 53"
        by (simp add: mult.commute mult.left_commute)
      thus ?thesis by blast
    next
      case False
      with lt have "2 ^ 52 \<le> x * 2 ^ 0 \<and> x * 2 ^ 0 < 2 ^ 53" by simp
      thus ?thesis by blast
    qed
  qed
qed

lemma binary64_representable:
  assumes "0 < m" "m < 2 ^ 53"
  shows "binary64 (of_int m / 2 ^ j) = of_int m / 2 ^ j"
proof -
  define x :: rat where "x = of_int m / 2 ^ j"
  have xpos: "0 < x" using assms(1) by (simp add: x_def)
  have "x \<le> of_int m" using assms(1) by (simp add: x_def divide_le_eq mult_le_cancel_left1)
  also have "(of_int m :: rat) < 2 ^ 53" using assms(2) by (metis of_int_less_numeral_power_cancel_iff)
  finally have xlt: "x < 2 ^ 53" .
  from binary64_exists_k [of x] xpos xlt obtain k
    where k: "2 ^ 52 \<le> x * 2 ^ k" "x * 2 ^ k < 2 ^ 53" by blast
  have "j \<le> k"
  proof (rule ccontr)
    assume "\<not> j \<le> k"
    then obtain i where j: "j = k + Suc i" by (metis add_Suc_right less_imp_Suc_add not_le)
    have "of_int m = x * 2 ^ k * 2 ^ Suc i" by (simp add: x_def j power_add)
    moreover have "(2::rat) ^ 52 * 2 \<le> x * 2 ^ k * 2 ^ Suc i"
      using k(1) by (intro mult_mono) simp_all
    ultimately have "(2::rat) ^ 53 \<le> of_int m" by simp
    thus False using \<open>(of_int m :: rat) < 2 ^ 53\<close> by simp
  qed
  then obtain i where ki: "k = j + i" by (metis le_Suc_ex)
  have eq: "x * 2 ^ k = of_int (m * 2 ^ i)" by (simp add: x_def ki power_add)
  have "round_half_even (x * 2 ^ k) = m * 2 ^ i"
    unfolding eq by (rule round_half_even_of_int)
  hence "binary64 x = of_int (m * 2 ^ i) / 2 ^ k"
    using binary64_small [OF xpos k] by (simp only:)
  also have "\<dots> = x" by (simp add: x_def ki power_add)
  finally show ?thesis by (simp add: x_def)
qed

lemma binary64_numeral:
  "(numeral n :: int) < 2 ^ 53 \<Longrightarrow> binary64 (numeral n) = numeral n"
  using binary64_representable [of "numeral n" 0] by simp

lemma binary64_one: "binary64 1 = 1"
  using binary64_representable [of 1 0] by simp

lemma binary64_half: "binary64 (1 / 2) = 1 / 2"
  using binary64_representable [of 1 1] by simp

lemma binary64_zero: "binary64 0 = 0"
  by (simp add: binary64_def)

text \<open>A rounding changes a positive number by at most its \<open>2 ^ -53\<close>th part.\<close>

lemma scale_down_steps:
  "2 ^ 52 \<le> x / 2 ^ k \<Longrightarrow> x / 2 ^ k < 2 ^ 53 \<Longrightarrow> scale_down x e = e + int k"
proof (induction k arbitrary: x e)
  case 0
  then show ?case by (simp add: scale_down.simps)
next
  case (Suc k)
  have xpos: "0 < x"
  proof (rule ccontr)
    assume "\<not> 0 < x"
    hence "x / 2 ^ Suc k \<le> 0" by (simp add: divide_le_0_iff)
    moreover have "(0::rat) < 2 ^ 52" by simp
    ultimately show False using Suc.prems(1) by linarith
  qed
  have "(1::rat) \<le> 2 ^ k" by simp
  hence "x / (2 * 2 ^ k) \<le> x / 2" using xpos by (intro frac_le) simp_all
  hence big: "2 ^ 53 \<le> x" using Suc.prems(1) by simp
  have "scale_down (x / 2) (e + 1) = e + 1 + int k"
    using Suc.prems by (intro Suc.IH) simp_all
  then show ?case using big by (subst scale_down.simps) simp
qed

lemma binary64_exists_k_large:
  fixes x :: rat
  shows "2 ^ 52 \<le> x \<longrightarrow> (\<exists>k. 2 ^ 52 \<le> x / 2 ^ k \<and> x / 2 ^ k < 2 ^ 53)"
proof (rule scale_down.induct
    [of "\<lambda>x e. 2 ^ 52 \<le> x \<longrightarrow> (\<exists>k. 2 ^ 52 \<le> x / 2 ^ k \<and> x / 2 ^ k < 2 ^ 53)" x 0])
  fix x :: rat and e :: int
  assume IH: "2 ^ 53 \<le> x \<Longrightarrow>
     2 ^ 52 \<le> x / 2 \<longrightarrow> (\<exists>k. 2 ^ 52 \<le> x / 2 / 2 ^ k \<and> x / 2 / 2 ^ k < 2 ^ 53)"
  show "2 ^ 52 \<le> x \<longrightarrow> (\<exists>k. 2 ^ 52 \<le> x / 2 ^ k \<and> x / 2 ^ k < 2 ^ 53)"
  proof
    assume ge: "2 ^ 52 \<le> x"
    show "\<exists>k. 2 ^ 52 \<le> x / 2 ^ k \<and> x / 2 ^ k < 2 ^ 53"
    proof (cases "2 ^ 53 \<le> x")
      case True
      hence "2 ^ 52 \<le> x / 2" by simp
      with IH True obtain k where "2 ^ 52 \<le> x / 2 / 2 ^ k \<and> x / 2 / 2 ^ k < 2 ^ 53" by blast
      hence "2 ^ 52 \<le> x / 2 ^ Suc k \<and> x / 2 ^ Suc k < 2 ^ 53" by simp
      thus ?thesis by blast
    next
      case False
      with ge have "2 ^ 52 \<le> x / 2 ^ 0 \<and> x / 2 ^ 0 < 2 ^ 53" by simp
      thus ?thesis by blast
    qed
  qed
qed

lemma binary64_large:
  assumes "2 ^ 52 \<le> x / 2 ^ k" "x / 2 ^ k < 2 ^ 53"
  shows "binary64 x = of_int (round_half_even (x / 2 ^ k)) * 2 ^ k"
proof -
  have "(1::rat) \<le> 2 ^ k" by simp
  have p: "(0::rat) < 2 ^ 52" by simp
  have xpos: "0 < x"
  proof (rule ccontr)
    assume "\<not> 0 < x"
    hence "x / 2 ^ k \<le> 0" by (simp add: divide_le_0_iff)
    thus False using assms(1) p by linarith
  qed
  have "x / 2 ^ k \<le> x" using xpos \<open>1 \<le> 2 ^ k\<close> by (simp add: divide_le_eq mult_le_cancel_left1)
  hence "\<not> x < 2 ^ 52" using assms(1) by linarith
  hence "exponent x = int k" using scale_down_steps [OF assms, of 0] by (simp add: exponent_def)
  thus ?thesis using xpos by (simp add: binary64_def Let_def)
qed

lemma round_half_even_error: "\<bar>of_int (round_half_even y) - y\<bar> \<le> 1 / 2"
proof -
  have "of_int \<lfloor>y\<rfloor> \<le> y" "y < of_int \<lfloor>y\<rfloor> + 1" by linarith+
  thus ?thesis by (auto simp: round_half_even_def Let_def abs_le_iff)
qed

lemma binary64_error:
  assumes "0 < x"
  shows "\<bar>binary64 x - x\<bar> \<le> x / 2 ^ 53"
proof -
  have "\<exists>p y. 0 < p \<and> x = y * p \<and> 2 ^ 52 \<le> y \<and> binary64 x = of_int (round_half_even y) * p"
  proof (cases "x < 2 ^ 53")
    case True
    from binary64_exists_k [of x] assms True obtain k
      where k: "2 ^ 52 \<le> x * 2 ^ k" "x * 2 ^ k < 2 ^ 53" by blast
    have "binary64 x = of_int (round_half_even (x * 2 ^ k)) * (1 / 2 ^ k)"
      using binary64_small [OF assms k] by simp
    moreover have "x = x * 2 ^ k * (1 / 2 ^ k)" by simp
    moreover have "(0::rat) < 1 / 2 ^ k" by simp
    ultimately show ?thesis using k(1) by blast
  next
    case False
    hence "2 ^ 52 \<le> x" by simp
    with binary64_exists_k_large [of x] obtain k
      where k: "2 ^ 52 \<le> x / 2 ^ k" "x / 2 ^ k < 2 ^ 53" by blast
    have "binary64 x = of_int (round_half_even (x / 2 ^ k)) * 2 ^ k"
      using binary64_large [OF k] .
    moreover have "x = x / 2 ^ k * 2 ^ k" by simp
    moreover have "(0::rat) < 2 ^ k" by simp
    ultimately show ?thesis using k(1) by blast
  qed
  then obtain p y where p: "0 < p" and x: "x = y * p" and y: "2 ^ 52 \<le> y"
    and b: "binary64 x = of_int (round_half_even y) * p" by blast
  define r where "r = binary64 x"
  have "r - x = (of_int (round_half_even y) - y) * p"
    using b x by (simp add: r_def left_diff_distrib)
  hence "\<bar>r - x\<bar> = \<bar>of_int (round_half_even y) - y\<bar> * p"
    using p by (simp add: abs_mult)
  also have "\<dots> \<le> 1 / 2 * p" using round_half_even_error [of y] p by (intro mult_right_mono) simp_all
  also have "\<dots> \<le> y / 2 ^ 53 * p" using y p by (intro mult_right_mono) simp_all
  also have "\<dots> = x / 2 ^ 53" by (simp add: x)
  finally show ?thesis by (simp add: r_def)
qed

lemma shrink_bounds: "0 < 1 - unit_roundoff" "1 - unit_roundoff \<le> 1"
  "(1 + unit_roundoff) * (1 - unit_roundoff) \<le> 1"
  by (simp_all add: unit_roundoff_def algebra_simps)

lemma shrink_power_pos: "0 < (1 - unit_roundoff) ^ k"
  using shrink_bounds(1) by simp

lemma shrink_power_le: "k \<le> m \<Longrightarrow> (1 - unit_roundoff) ^ m \<le> (1 - unit_roundoff) ^ k"
  using shrink_bounds by (intro power_decreasing) simp_all

lemma within_nonneg: "0 \<le> a \<Longrightarrow> within_roundings k a b \<Longrightarrow> 0 \<le> b"
proof -
  assume a: "0 \<le> a" and w: "within_roundings k a b"
  have "0 \<le> a * (1 - unit_roundoff) ^ k" using a shrink_power_pos [of k] by simp
  thus ?thesis using w by (simp add: within_roundings_def)
qed

lemma within_zero: "within_roundings k 0 b \<Longrightarrow> b = 0"
proof -
  assume w: "within_roundings k 0 b"
  hence "0 \<le> b" "b * (1 - unit_roundoff) ^ k \<le> 0" by (simp_all add: within_roundings_def)
  thus ?thesis using shrink_power_pos [of k] by (simp add: mult_le_0_iff)
qed

lemma within_pos: "0 < a \<Longrightarrow> within_roundings k a b \<Longrightarrow> 0 < b"
proof -
  assume a: "0 < a" and w: "within_roundings k a b"
  have "0 < a * (1 - unit_roundoff) ^ k" using a shrink_power_pos [of k] by simp
  thus ?thesis using w by (simp add: within_roundings_def)
qed

lemma within_refl: "within_roundings 0 a a"
  by (simp add: within_roundings_def)

lemma within_zero_zero: "within_roundings k 0 0"
  by (simp add: within_roundings_def)

lemma within_mono:
  assumes "0 \<le> a" "within_roundings k a b" "k \<le> m"
  shows "within_roundings m a b"
proof -
  have b: "0 \<le> b" using assms(1,2) by (rule within_nonneg)
  have le: "(1 - unit_roundoff) ^ m \<le> (1 - unit_roundoff) ^ k" using assms(3) by (rule shrink_power_le)
  have "a * (1 - unit_roundoff) ^ m \<le> a * (1 - unit_roundoff) ^ k"
    using assms(1) le by (rule mult_left_mono [rotated])
  moreover have "b * (1 - unit_roundoff) ^ m \<le> b * (1 - unit_roundoff) ^ k"
    using b le by (rule mult_left_mono [rotated])
  ultimately show ?thesis using assms(2) by (simp add: within_roundings_def)
qed

lemma binary64_factor:
  assumes "0 \<le> b"
  shows "b * (1 - unit_roundoff) \<le> binary64 b \<and> binary64 b \<le> b * (1 + unit_roundoff)"
proof (cases "b = 0")
  case True
  then show ?thesis by (simp add: binary64_zero)
next
  case False
  hence "0 < b" using assms by simp
  from binary64_error [OF this] have "\<bar>binary64 b - b\<bar> \<le> b * unit_roundoff"
    by (simp add: unit_roundoff_def)
  hence "b - b * unit_roundoff \<le> binary64 b" "binary64 b \<le> b + b * unit_roundoff"
    by linarith+
  thus ?thesis by (simp add: algebra_simps)
qed

lemma within_binary64:
  assumes "0 \<le> a" "within_roundings k a b"
  shows "within_roundings (Suc k) a (binary64 b)"
proof -
  let ?q = "1 - unit_roundoff"
  have b: "0 \<le> b" using assms by (rule within_nonneg)
  have lo: "a * ?q ^ k \<le> b" and hi: "b * ?q ^ k \<le> a"
    using assms(2) by (simp_all add: within_roundings_def)
  have f: "b * ?q \<le> binary64 b" "binary64 b \<le> b * (1 + unit_roundoff)"
    using binary64_factor [OF b] by simp_all
  have "a * ?q ^ Suc k = (a * ?q ^ k) * ?q" by simp
  also have "\<dots> \<le> b * ?q" using lo shrink_bounds(1) by (intro mult_right_mono) simp_all
  also have "\<dots> \<le> binary64 b" by (rule f(1))
  finally have l: "a * ?q ^ Suc k \<le> binary64 b" .
  have qk: "0 \<le> ?q ^ Suc k" using shrink_power_pos [of "Suc k"] by simp
  have "binary64 b * ?q ^ Suc k \<le> (b * (1 + unit_roundoff)) * ?q ^ Suc k"
    using f(2) qk by (rule mult_right_mono)
  also have "\<dots> = (b * ?q ^ k) * ((1 + unit_roundoff) * ?q)" by simp
  also have "\<dots> \<le> (b * ?q ^ k) * 1"
    using b shrink_power_pos [of k] shrink_bounds(3) by (intro mult_left_mono) simp_all
  also have "\<dots> \<le> a" using hi by simp
  finally have h: "binary64 b * ?q ^ Suc k \<le> a" .
  show ?thesis using l h by (simp only: within_roundings_def)
qed

lemma within_mult:
  assumes "0 \<le> a" "0 \<le> c" "within_roundings k a b" "within_roundings m c d"
  shows "within_roundings (k + m) (a * c) (b * d)"
proof -
  let ?q = "1 - unit_roundoff"
  have b: "0 \<le> b" using assms(1,3) by (rule within_nonneg)
  have d: "0 \<le> d" using assms(2,4) by (rule within_nonneg)
  have qk: "0 \<le> ?q ^ k" and qm: "0 \<le> ?q ^ m"
    using shrink_power_pos [of k] shrink_power_pos [of m] by simp_all
  have "(a * ?q ^ k) * (c * ?q ^ m) \<le> b * d"
    using assms qk qm b d by (intro mult_mono) (simp_all add: within_roundings_def)
  moreover have "(b * ?q ^ k) * (d * ?q ^ m) \<le> a * c"
    using assms qk qm b d by (intro mult_mono) (simp_all add: within_roundings_def)
  ultimately show ?thesis by (simp add: within_roundings_def power_add mult_ac)
qed

lemma within_add:
  assumes "within_roundings k a b" "within_roundings k c d"
  shows "within_roundings k (a + c) (b + d)"
  using assms by (simp add: within_roundings_def distrib_right add_mono)

lemma within_divide:
  assumes "0 \<le> a" "0 < c" "within_roundings k a b" "within_roundings m c d"
  shows "within_roundings (k + m) (a / c) (b / d)"
proof -
  let ?q = "1 - unit_roundoff"
  have b: "0 \<le> b" using assms(1,3) by (rule within_nonneg)
  have d: "0 < d" using assms(2,4) by (rule within_pos)
  have qk: "0 \<le> ?q ^ k" and qm: "0 \<le> ?q ^ m"
    using shrink_power_pos [of k] shrink_power_pos [of m] by simp_all
  have 1: "(a * ?q ^ k) * (d * ?q ^ m) \<le> b * c"
    using assms qk qm b d by (intro mult_mono) (simp_all add: within_roundings_def)
  have 2: "(b * ?q ^ k) * (c * ?q ^ m) \<le> a * d"
    using assms qk qm b d by (intro mult_mono) (simp_all add: within_roundings_def)
  have "a / c * ?q ^ (k + m) \<le> b / d"
    using 1 assms(2) d by (simp add: field_simps power_add)
  moreover have "b / d * ?q ^ (k + m) \<le> a / c"
    using 2 assms(2) d by (simp add: field_simps power_add)
  ultimately show ?thesis by (simp add: within_roundings_def)
qed

lemma b64_9_10: "binary64 (9 / 10) = 8106479329266893 / 9007199254740992"
  by (subst binary64_small [where k = 53]) (simp_all add: binary64_eval)

lemma b64_9_10_100: "binary64 (202661983231672325 / 2251799813685248) = 90"
  by (subst binary64_small [where k = 46]) (simp_all add: binary64_eval)

lemma rate_binary64_27_30:
  "binary64 (Math_round (binary64 (attendanceRate binary64 27 30 * 10)) / 10) = 90"
  by (simp add: attendanceRate_def b64_9_10 b64_9_10_100 binary64_numeral Math_round_def
      floor_divide_numeral_rat)

lemma rate_exact:
  "exact (Math_round (exact (attendanceRate exact p t * 10)) / 10)
     = (if 0 < t then of_int \<lfloor>1000 * (of_nat p :: rat) / of_nat t + 1 / 2\<rfloor> / 10 else 0)"
  by (simp add: attendanceRate_def exact_def Math_round_def floor_half_rat)

subsection \<open>Letter grades\<close>

lemma b64_899_10: "binary64 (899 / 10) = 3163075050785997 / 35184372088832"
  by (subst binary64_small [where k = 46]) (simp_all add: binary64_eval)

lemma b64_599_10: "binary64 (599 / 10) = 8430175552484147 / 140737488355328"
  by (subst binary64_small [where k = 47]) (simp_all add: binary64_eval)

lemma calculateLetterGrade_exact:
  "maxScore \<noteq> 0 \<Longrightarrow>
   calculateLetterGrade exact score maxScore = getLetterGrade (score / maxScore * 100)"
  by (simp add: calculateLetterGrade_def exact_def)

text \<open>
  C2. \<open>getLetterGrade\<close> gives "A" from 90, "B" from 80 to below 90, "C" from 70 to
  below 80, "D" from 60 to below 70 and "F" below 60; 92 is an "A", 89.9 a "B", 60 a "D"
  and 59.9 an "F", for the decimal numbers and for the doubles nearest to them.
\<close>

theorem getLetterGrade_default_boundaries:
  "(90 \<le> p \<longrightarrow> getLetterGrade p = ''A'')
   \<and> (80 \<le> p \<and> p < 90 \<longrightarrow> getLetterGrade p = ''B'')
   \<and> (70 \<le> p \<and> p < 80 \<longrightarrow> getLetterGrade p = ''C'')
   \<and> (60 \<le> p \<and> p < 70 \<longrightarrow> getLetterGrade p = ''D'')
   \<and> (p < 60 \<longrightarrow> getLetterGrade p = ''F'')
   \<and> getLetterGrade 92 = ''A''
   \<and> getLetterGrade (899 / 10) = ''B''
   \<and> getLetterGrade 60 = ''D''
   \<and> getLetterGrade (599 / 10) = ''F''
   \<and> getLetterGrade (binary64 (899 / 10)) = ''B''
   \<and> getLetterGrade (binary64 (599 / 10)) = ''F''"
  by (simp add: getLetterGrade_def b64_899_10 b64_599_10)

theorem getLetterGrade_default_boundaries_witness:
  "getLetterGrade 95 = ''A'' \<and> getLetterGrade 85 = ''B'' \<and> getLetterGrade (151 / 2) = ''C''
   \<and> getLetterGrade 60 = ''D'' \<and> getLetterGrade 12 = ''F''"
  using getLetterGrade_default_boundaries [of 95] getLetterGrade_default_boundaries [of 85]
    getLetterGrade_default_boundaries [of "151 / 2"] getLetterGrade_default_boundaries [of 60]
    getLetterGrade_default_boundaries [of 12]
  by simp

subsection \<open>Boundaries\<close>

text \<open>
  C6 as stated has a table that is not strictly descending rejected with ConfigError. The
  table with A at 80 and B at 90 is not rejected: 85 gets the letter "B" of the fixed
  thresholds.
\<close>

theorem letterGradeFor_counterexample:
  "\<not> strictly_descending inverted_boundaries
   \<and> letterGradeFor 85 inverted_boundaries = Inr ''B''"
  by (simp add: strictly_descending_def inverted_boundaries_def letterGradeFor_def getLetterGrade_def)

text \<open>
  C6, amended. The letter does not depend on a boundaries table: for every table,
  descending or not, the result is the letter under the fixed thresholds 90, 80, 70 and
  60, and it is never ConfigError.
\<close>

theorem letterGradeFor_fixed_thresholds:
  "letterGradeFor p table \<noteq> Inl ConfigError
   \<and> letterGradeFor p table = letterGradeFor p table'
   \<and> letterGradeFor p table =
       Inr (if 90 \<le> p then ''A'' else if 80 \<le> p then ''B'' else if 70 \<le> p then ''C''
            else if 60 \<le> p then ''D'' else ''F'')"
  by (simp add: letterGradeFor_def getLetterGrade_def)

theorem letterGradeFor_fixed_thresholds_witness:
  "letterGradeFor 95 inverted_boundaries = Inr ''A''
   \<and> letterGradeFor 95 inverted_boundaries \<noteq> Inl ConfigError"
  using letterGradeFor_fixed_thresholds [of 95 inverted_boundaries]
  by simp

subsection \<open>The total of a student\<close>

lemma b64_16_25: "binary64 (16 / 25) = 5764607523034235 / 9007199254740992"
  by (subst binary64_small [where k = 53]) (simp_all add: binary64_eval)

lemma b64_16_25_100: "binary64 (144115188075855875 / 2251799813685248) = 64"
  by (subst binary64_small [where k = 46]) (simp_all add: binary64_eval)

lemma calculateStudentTotal_binary64_example:
  "calculateStudentTotal binary64 Map.empty [] [midterm_grade] [midterm, quiz] ''s1'' = 64"
  by (simp add: calculateStudentTotal_def filteredAssessments_def total_step_def currentScore_def
      gradeKey_def getGradeForStudentAssessment_def midterm_def quiz_def midterm_grade_def
      binary64_numeral binary64_one binary64_half binary64_zero b64_16_25 b64_16_25_100)

lemma normal_range_nonneg: "normal_range v \<Longrightarrow> 0 \<le> v"
proof -
  assume "normal_range v"
  moreover have "(0::rat) \<le> 1 / 2 ^ 100" by simp
  ultimately show ?thesis unfolding normal_range_def by linarith
qed

lemma currentScore_within:
  assumes "0 \<le> scoreOf gc gs sid a"
  shows "within_roundings 1 (scoreOf gc gs sid a) (currentScore binary64 gc gs sid a)"
proof (cases "gc (gradeKey sid (as_id a))")
  case (Some changed)
  hence "currentScore binary64 gc gs sid a = scoreOf gc gs sid a"
    by (simp add: currentScore_def scoreOf_def)
  thus ?thesis using within_mono [OF assms within_refl, of 1] by simp
next
  case None
  show ?thesis
  proof (cases "getGradeForStudentAssessment gs sid (as_id a)")
    case None
    with \<open>gc (gradeKey sid (as_id a)) = None\<close> show ?thesis
      by (simp add: currentScore_def scoreOf_def within_zero_zero)
  next
    case (Some grade)
    with \<open>gc (gradeKey sid (as_id a)) = None\<close>
    have c: "currentScore binary64 gc gs sid a = binary64 (g_score grade)"
      and s: "scoreOf gc gs sid a = g_score grade"
      by (simp_all add: currentScore_def scoreOf_def)
    have "within_roundings (Suc 0) (g_score grade) (binary64 (g_score grade))"
      using assms s by (intro within_binary64 within_refl) simp
    thus ?thesis by (simp add: c s)
  qed
qed

lemma term_within:
  assumes "0 \<le> x" "0 \<le> w" "within_roundings 1 x x'"
  shows "within_roundings 3 (x * w) (binary64 (x' * binary64 w))"
proof -
  have "within_roundings (Suc 0) w (binary64 w)"
    using assms(2) by (intro within_binary64 within_refl)
  hence "within_roundings (1 + 1) (x * w) (x' * binary64 w)"
    using assms by (intro within_mult) simp_all
  hence "within_roundings (Suc (1 + 1)) (x * w) (binary64 (x' * binary64 w))"
    using assms(1,2) by (intro within_binary64) simp_all
  thus ?thesis by (simp add: numeral_3_eq_3)
qed

lemma accumulate_within:
  assumes "0 \<le> s" "0 \<le> t" "within_roundings k s s'" "within_roundings 3 t t'" "3 \<le> k"
  shows "within_roundings (Suc k) (s + t) (binary64 (s' + t'))"
proof -
  have "within_roundings k t t'" using assms(2,4,5) by (rule within_mono)
  hence "within_roundings k (s + t) (s' + t')" using assms(3) by (intro within_add)
  thus ?thesis using assms(1,2) by (intro within_binary64) simp_all
qed

lemma fold_total_step_within:
  assumes "\<forall>a \<in> set xs. 0 \<le> scoreOf gc gs sid a \<and> 0 \<le> as_maxScore a \<and> 0 \<le> as_weight a"
    and "0 \<le> s" "0 \<le> p" "within_roundings k s s'" "within_roundings k p p'" "3 \<le> k"
  shows "within_roundings (k + length xs)
           (s + (\<Sum>a\<leftarrow>xs. scoreOf gc gs sid a * as_weight a))
           (fst (fold (total_step binary64 gc gs sid) xs (s', p')))
       \<and> within_roundings (k + length xs)
           (p + (\<Sum>a\<leftarrow>xs. as_maxScore a * as_weight a))
           (snd (fold (total_step binary64 gc gs sid) xs (s', p')))"
  using assms
proof (induction xs arbitrary: s p s' p' k)
  case Nil
  then show ?case by simp
next
  case (Cons a xs)
  have a: "0 \<le> scoreOf gc gs sid a" "0 \<le> as_maxScore a" "0 \<le> as_weight a"
    using Cons.prems(1) by simp_all
  have rest: "\<forall>a \<in> set xs. 0 \<le> scoreOf gc gs sid a \<and> 0 \<le> as_maxScore a \<and> 0 \<le> as_weight a"
    using Cons.prems(1) by simp
  let ?s1 = "s + scoreOf gc gs sid a * as_weight a"
  let ?p1 = "p + as_maxScore a * as_weight a"
  let ?s1' = "binary64 (s' + binary64 (currentScore binary64 gc gs sid a * binary64 (as_weight a)))"
  let ?p1' = "binary64 (p' + binary64 (binary64 (as_maxScore a) * binary64 (as_weight a)))"
  have step: "total_step binary64 gc gs sid a (s', p') = (?s1', ?p1')"
    by (simp add: total_step_def)
  have ts: "within_roundings 3 (scoreOf gc gs sid a * as_weight a)
              (binary64 (currentScore binary64 gc gs sid a * binary64 (as_weight a)))"
    using a by (intro term_within currentScore_within)
  have "within_roundings (Suc 0) (as_maxScore a) (binary64 (as_maxScore a))"
    using a(2) by (intro within_binary64 within_refl)
  hence tp: "within_roundings 3 (as_maxScore a * as_weight a)
              (binary64 (binary64 (as_maxScore a) * binary64 (as_weight a)))"
    using a by (intro term_within) simp_all
  have w1: "within_roundings (Suc k) ?s1 ?s1'"
    using Cons.prems(2) a ts Cons.prems(4,6) by (intro accumulate_within) simp_all
  have w2: "within_roundings (Suc k) ?p1 ?p1'"
    using Cons.prems(3) a tp Cons.prems(5,6) by (intro accumulate_within) simp_all
  have n1: "0 \<le> ?s1" "0 \<le> ?p1" using Cons.prems(2,3) a by simp_all
  have "3 \<le> Suc k" using Cons.prems(6) by simp
  from Cons.IH [OF rest n1 w1 w2 this]
  show ?case by (simp add: step add.assoc)
qed

lemma sum_list_nonneg_terms:
  "\<forall>a \<in> set xs. 0 \<le> f a \<Longrightarrow> 0 \<le> (\<Sum>a\<leftarrow>xs. (f a :: rat))"
  by (induction xs) simp_all

lemma calculateStudentTotal_within:
  assumes "\<forall>a \<in> set (filteredAssessments ft xs).
             0 \<le> scoreOf gc gs sid a \<and> 0 \<le> as_maxScore a \<and> 0 \<le> as_weight a"
  shows "within_roundings (2 * length (filteredAssessments ft xs) + 8)
           (percentage_formula gc ft gs xs sid)
           (calculateStudentTotal binary64 gc ft gs xs sid)"
proof -
  let ?fa = "filteredAssessments ft xs"
  let ?n = "length ?fa"
  let ?E = "\<Sum>a\<leftarrow>?fa. scoreOf gc gs sid a * as_weight a"
  let ?P = "\<Sum>a\<leftarrow>?fa. as_maxScore a * as_weight a"
  obtain S' P' where f: "fold (total_step binary64 gc gs sid) ?fa (0, 0) = (S', P')"
    by (cases "fold (total_step binary64 gc gs sid) ?fa (0, 0)")
  from fold_total_step_within [OF assms, of 0 0 3 0 0]
  have wS: "within_roundings (3 + ?n) ?E S'" and wP: "within_roundings (3 + ?n) ?P P'"
    by (simp_all add: within_zero_zero f)
  have E0: "0 \<le> ?E" using assms by (intro sum_list_nonneg_terms) simp
  have P0: "0 \<le> ?P" using assms by (intro sum_list_nonneg_terms) simp
  show ?thesis
  proof (cases "0 < ?P")
    case True
    hence P'pos: "0 < P'" using wP by (rule within_pos)
    have "within_roundings ((3 + ?n) + (3 + ?n)) (?E / ?P) (S' / P')"
      using E0 True wS wP by (rule within_divide)
    hence "within_roundings (Suc ((3 + ?n) + (3 + ?n))) (?E / ?P) (binary64 (S' / P'))"
      using E0 True by (intro within_binary64) simp_all
    hence "within_roundings (Suc ((3 + ?n) + (3 + ?n)) + 0) (?E / ?P * 100) (binary64 (S' / P') * 100)"
      using E0 True by (intro within_mult within_refl) simp_all
    hence "within_roundings (Suc (Suc ((3 + ?n) + (3 + ?n)) + 0)) (?E / ?P * 100)
             (binary64 (binary64 (S' / P') * 100))"
      using E0 True by (intro within_binary64) simp_all
    moreover have "Suc (Suc ((3 + ?n) + (3 + ?n)) + 0) = 2 * ?n + 8" by simp
    ultimately have "within_roundings (2 * ?n + 8) (?E / ?P * 100)
             (binary64 (binary64 (S' / P') * 100))" by (simp only:)
    thus ?thesis using True P'pos
      by (simp add: percentage_formula_def calculateStudentTotal_def f Let_def)
  next
    case False
    hence "?P = 0" using P0 by simp
    hence "P' = 0" using wP by (simp add: within_zero)
    thus ?thesis using False
      by (simp add: percentage_formula_def calculateStudentTotal_def f Let_def within_zero_zero)
  qed
qed

lemma b64_57_100: "binary64 (57 / 100) = 5134103575202365 / 9007199254740992"
  by (subst binary64_small [where k = 53]) (simp_all add: binary64_eval)

lemma b64_57_100_100:
  "binary64 (128352589380059125 / 2251799813685248) = 8022036836253695 / 140737488355328"
  by (subst binary64_small [where k = 47]) (simp_all add: binary64_eval)

lemmas gradebook_eval =
  calculateStudentTotal_def filteredAssessments_def total_step_def currentScore_def
  gradeKey_def getGradeForStudentAssessment_def midterm_def quiz_def midterm_grade_def
  midterm_grade57_def quiz_unsaved_def
  binary64_numeral binary64_one binary64_half binary64_zero

lemma percentage_formula_example:
  "percentage_formula Map.empty [] [midterm_grade] [midterm, quiz] ''s1'' = 64"
  by (simp add: percentage_formula_def scoreOf_def filteredAssessments_def gradeKey_def
      getGradeForStudentAssessment_def midterm_def quiz_def midterm_grade_def)

text \<open>
  C1, amended. When the scores that count, the maximal scores and the weights of the
  filtered assessments are in the normal range, \<open>calculateStudentTotal\<close> returns the
  percentage of the formula up to the roundings of binary64 arithmetic: with \<open>n\<close>
  filtered assessments the result lies between the formula's value times
  \<open>(1 - 2 ^ -53) ^ (2 * n + 8)\<close> and that value divided by the same factor; it is not
  negative, and it is 0 when the formula gives 0, as when the denominator is not
  positive. The score that counts is the unsaved score in \<open>gradeChanges\<close> under the key
  \<open>studentId-assessmentId\<close> when there is one; otherwise the score of the first grade of
  the student for the assessment; otherwise 0. With no unsaved score, the midterm graded
  80 and the quiz ungraded, the formula gives 64 and the function returns exactly 64.
\<close>

theorem calculateStudentTotal_weighted:
  "((\<forall>a \<in> set (filteredAssessments ft xs).
        normal_range (scoreOf gc gs sid a) \<and> normal_range (as_maxScore a)
        \<and> normal_range (as_weight a))
     \<longrightarrow> within_roundings (2 * length (filteredAssessments ft xs) + 8)
           (percentage_formula gc ft gs xs sid)
           (calculateStudentTotal binary64 gc ft gs xs sid)
         \<and> 0 \<le> calculateStudentTotal binary64 gc ft gs xs sid
         \<and> (percentage_formula gc ft gs xs sid = 0
              \<longrightarrow> calculateStudentTotal binary64 gc ft gs xs sid = 0))
   \<and> percentage_formula Map.empty [] [midterm_grade] [midterm, quiz] ''s1'' = 64
   \<and> calculateStudentTotal binary64 Map.empty [] [midterm_grade] [midterm, quiz] ''s1'' = 64"
proof (intro conjI impI)
  assume r: "\<forall>a \<in> set (filteredAssessments ft xs).
        normal_range (scoreOf gc gs sid a) \<and> normal_range (as_maxScore a)
        \<and> normal_range (as_weight a)"
  hence nn: "\<forall>a \<in> set (filteredAssessments ft xs).
             0 \<le> scoreOf gc gs sid a \<and> 0 \<le> as_maxScore a \<and> 0 \<le> as_weight a"
    using normal_range_nonneg by blast
  show w: "within_roundings (2 * length (filteredAssessments ft xs) + 8)
           (percentage_formula gc ft gs xs sid)
           (calculateStudentTotal binary64 gc ft gs xs sid)"
    using nn by (rule calculateStudentTotal_within)
  have f0: "0 \<le> percentage_formula gc ft gs xs sid"
  proof -
    have "0 \<le> (\<Sum>a\<leftarrow>filteredAssessments ft xs. scoreOf gc gs sid a * as_weight a)"
      using nn by (intro sum_list_nonneg_terms) simp
    thus ?thesis by (simp add: percentage_formula_def Let_def)
  qed
  show "0 \<le> calculateStudentTotal binary64 gc ft gs xs sid"
    using f0 w by (rule within_nonneg)
  assume "percentage_formula gc ft gs xs sid = 0"
  with w show "calculateStudentTotal binary64 gc ft gs xs sid = 0"
    by (simp add: within_zero)
next
  show "percentage_formula Map.empty [] [midterm_grade] [midterm, quiz] ''s1'' = 64"
    by (rule percentage_formula_example)
next
  show "calculateStudentTotal binary64 Map.empty [] [midterm_grade] [midterm, quiz] ''s1'' = 64"
    by (rule calculateStudentTotal_binary64_example)
qed

theorem calculateStudentTotal_weighted_witness:
  "filteredAssessments ''QUIZ'' [midterm, quiz] = [quiz]
   \<and> normal_range (scoreOf quiz_unsaved [midterm_grade] ''s1'' quiz)
   \<and> normal_range (as_maxScore quiz) \<and> normal_range (as_weight quiz)
   \<and> percentage_formula quiz_unsaved ''QUIZ'' [midterm_grade] [midterm, quiz] ''s1'' = 80
   \<and> within_roundings 10 80
        (calculateStudentTotal binary64 quiz_unsaved ''QUIZ'' [midterm_grade] [midterm, quiz] ''s1'')"
proof -
  have fa: "filteredAssessments ''QUIZ'' [midterm, quiz] = [quiz]"
    by (simp add: filteredAssessments_def midterm_def quiz_def)
  have r: "normal_range (scoreOf quiz_unsaved [midterm_grade] ''s1'' quiz)"
    "normal_range (as_maxScore quiz)" "normal_range (as_weight quiz)"
    by (simp_all add: quiz_def normal_range_def scoreOf_def gradeKey_def quiz_unsaved_def)
  have h: "\<forall>a \<in> set (filteredAssessments ''QUIZ'' [midterm, quiz]).
        normal_range (scoreOf quiz_unsaved [midterm_grade] ''s1'' a)
        \<and> normal_range (as_maxScore a) \<and> normal_range (as_weight a)"
    using r by (simp add: fa)
  have f: "percentage_formula quiz_unsaved ''QUIZ'' [midterm_grade] [midterm, quiz] ''s1'' = 80"
    by (simp add: percentage_formula_def scoreOf_def filteredAssessments_def gradeKey_def
        midterm_def quiz_def quiz_unsaved_def)
  from calculateStudentTotal_weighted
    [of "''QUIZ''" "[midterm, quiz]" quiz_unsaved "[midterm_grade]" "''s1''"] h
  have "within_roundings (2 * length (filteredAssessments ''QUIZ'' [midterm, quiz]) + 8)
           (percentage_formula quiz_unsaved ''QUIZ'' [midterm_grade] [midterm, quiz] ''s1'')
           (calculateStudentTotal binary64 quiz_unsaved ''QUIZ'' [midterm_grade] [midterm, quiz] ''s1'')"
    by blast
  hence "within_roundings 10 80
        (calculateStudentTotal binary64 quiz_unsaved ''QUIZ'' [midterm_grade] [midterm, quiz] ''s1'')"
    by (simp only: fa f) simp
  with fa r f show ?thesis by (intro conjI)
qed

text \<open>
  C1 as stated takes the score of the recorded grade whenever one exists, and has the
  function return the value of the formula. With a recorded 80 on the midterm and an
  unsaved 50 typed into the gradebook, the function returns 50, where the recorded grade
  gives 80. With a recorded 57 of 100 and nothing unsaved, the function returns the
  double 56.99999999999999, where the formula gives 57.
\<close>

theorem calculateStudentTotal_counterexample:
  "calculateStudentTotal binary64 [''s1-a1'' \<mapsto> 50] [] [midterm_grade] [midterm] ''s1'' = 50
   \<and> find (\<lambda>g. g_studentId g = ''s1'' \<and> g_assessmentId g = as_id midterm) [midterm_grade]
       = Some midterm_grade
   \<and> g_score midterm_grade * as_weight midterm / (as_maxScore midterm * as_weight midterm) * 100 = 80
   \<and> calculateStudentTotal binary64 Map.empty [] [midterm_grade57] [midterm] ''s1''
       = 8022036836253695 / 140737488355328
   \<and> (8022036836253695 :: rat) / 140737488355328 < 57
   \<and> g_score midterm_grade57 * as_weight midterm / (as_maxScore midterm * as_weight midterm) * 100
       = 57"
  by (simp add: gradebook_eval b64_57_100 b64_57_100_100)

subsection \<open>Status counts\<close>

lemma fold_count_status_Count:
  "c k = Some (Count n) \<Longrightarrow> fold count_status xs c k = Some (Count (n + count_list xs k))"
proof (induction xs arbitrary: c n)
  case Nil
  then show ?case by simp
next
  case (Cons x xs)
  show ?case
  proof (cases "x = k")
    case True
    have "count_status x c k = Some (Count (n + 1))"
      using Cons.prems True by (simp add: count_status_def)
    with Cons.IH [of "count_status x c" "n + 1"] show ?thesis using True by simp
  next
    case False
    have "count_status x c k = Some (Count n)" using Cons.prems False
      by (simp add: count_status_def split: option.splits count.splits)
    with Cons.IH [of "count_status x c" n] show ?thesis using False by simp
  qed
qed

lemma dom_count_status:
  "dom (count_status s c) =
     dom c \<union> (if s \<in> set Object_prototype \<and> s \<noteq> ''__proto__'' then {s} else {})"
  by (auto simp: count_status_def split: option.splits count.splits if_splits)

lemma dom_fold_count_status:
  "dom (fold count_status xs c) =
     dom c \<union> {s \<in> set xs. s \<in> set Object_prototype \<and> s \<noteq> ''__proto__''}"
  by (induction xs arbitrary: c) (auto simp: dom_count_status split: if_splits)

lemma dom_counts0: "dom counts0 = set attendanceStatusEnum"
  by (auto simp: counts0_def attendanceStatusEnum_def split: if_splits)

lemma count_list_four:
  "set xs \<subseteq> {a, b, c, d} \<Longrightarrow> distinct [a, b, c, d] \<Longrightarrow>
   count_list xs a + count_list xs b + count_list xs c + count_list xs d = length xs"
  by (induction xs) auto

lemma getStatusCounts_key:
  "k \<in> set attendanceStatusEnum \<Longrightarrow>
   getStatusCounts ad k = Some (Count (count_list (map snd ad) k))"
proof -
  assume "k \<in> set attendanceStatusEnum"
  hence "counts0 k = Some (Count 0)" by (auto simp: attendanceStatusEnum_def counts0_def)
  with fold_count_status_Count [of counts0 k 0 "map snd ad"] show ?thesis
    by (simp add: getStatusCounts_def)
qed

lemma enum_not_inherited:
  "s \<in> set attendanceStatusEnum \<Longrightarrow> s \<notin> set Object_prototype"
  by (auto simp: attendanceStatusEnum_def Object_prototype_def)

text \<open>
  C8. \<open>getStatusCounts\<close> returns a count for each of PRESENT, ABSENT, LATE and EXCUSED;
  the count of a status starts at 0 and is the number of entries with that status. The
  keys of the result are these four and the inherited names that occur as a status (they
  get the value NaN). When every entry has one of the four statuses, as an attendance
  record has, the keys are the four and the counts add up to the number of entries. Over
  the ten entries of \<open>session10\<close> the counts are 6, 2, 1 and 1.
\<close>

theorem getStatusCounts_counts:
  "(\<forall>k \<in> set attendanceStatusEnum.
      getStatusCounts ad k = Some (Count (count_list (map snd ad) k)))
   \<and> dom (getStatusCounts ad) =
       set attendanceStatusEnum
       \<union> {s \<in> set (map snd ad). s \<in> set Object_prototype \<and> s \<noteq> ''__proto__''}
   \<and> (set (map snd ad) \<subseteq> set attendanceStatusEnum \<longrightarrow>
        dom (getStatusCounts ad) = set attendanceStatusEnum
        \<and> (\<exists>p a l e.
              getStatusCounts ad ''PRESENT'' = Some (Count p)
              \<and> getStatusCounts ad ''ABSENT'' = Some (Count a)
              \<and> getStatusCounts ad ''LATE'' = Some (Count l)
              \<and> getStatusCounts ad ''EXCUSED'' = Some (Count e)
              \<and> p + a + l + e = length ad))
   \<and> getStatusCounts [] = counts0
   \<and> length session10 = 10
   \<and> getStatusCounts session10 ''PRESENT'' = Some (Count 6)
   \<and> getStatusCounts session10 ''ABSENT'' = Some (Count 2)
   \<and> getStatusCounts session10 ''LATE'' = Some (Count 1)
   \<and> getStatusCounts session10 ''EXCUSED'' = Some (Count 1)
   \<and> getStatusCounts [(''s01'', ''toString''), (''s02'', ''LATE'')] ''toString'' = Some NaN
   \<and> getStatusCounts [(''s01'', ''toString''), (''s02'', ''LATE'')] ''LATE'' = Some (Count 1)"
proof -
  have keys: "\<forall>k \<in> set attendanceStatusEnum.
      getStatusCounts ad k = Some (Count (count_list (map snd ad) k))"
    by (simp add: getStatusCounts_key)
  have dm: "dom (getStatusCounts ad) =
       set attendanceStatusEnum
       \<union> {s \<in> set (map snd ad). s \<in> set Object_prototype \<and> s \<noteq> ''__proto__''}"
    by (simp only: getStatusCounts_def dom_fold_count_status dom_counts0)
  have valid: "set (map snd ad) \<subseteq> set attendanceStatusEnum \<longrightarrow>
        dom (getStatusCounts ad) = set attendanceStatusEnum
        \<and> (\<exists>p a l e.
              getStatusCounts ad ''PRESENT'' = Some (Count p)
              \<and> getStatusCounts ad ''ABSENT'' = Some (Count a)
              \<and> getStatusCounts ad ''LATE'' = Some (Count l)
              \<and> getStatusCounts ad ''EXCUSED'' = Some (Count e)
              \<and> p + a + l + e = length ad)"
  proof (intro impI conjI)
    assume a: "set (map snd ad) \<subseteq> set attendanceStatusEnum"
    have "{s \<in> set (map snd ad). s \<in> set Object_prototype \<and> s \<noteq> ''__proto__''} = {}"
      using a enum_not_inherited by blast
    with dm show "dom (getStatusCounts ad) = set attendanceStatusEnum"
      by (simp only: Un_empty_right)
    have sum: "count_list (map snd ad) ''PRESENT'' + count_list (map snd ad) ''ABSENT''
          + count_list (map snd ad) ''LATE'' + count_list (map snd ad) ''EXCUSED''
          = length (map snd ad)"
      using a by (intro count_list_four) (simp_all add: attendanceStatusEnum_def)
    have "getStatusCounts ad ''PRESENT'' = Some (Count (count_list (map snd ad) ''PRESENT''))"
      "getStatusCounts ad ''ABSENT'' = Some (Count (count_list (map snd ad) ''ABSENT''))"
      "getStatusCounts ad ''LATE'' = Some (Count (count_list (map snd ad) ''LATE''))"
      "getStatusCounts ad ''EXCUSED'' = Some (Count (count_list (map snd ad) ''EXCUSED''))"
      by (simp_all add: getStatusCounts_key attendanceStatusEnum_def)
    with sum show "\<exists>p a l e.
              getStatusCounts ad ''PRESENT'' = Some (Count p)
              \<and> getStatusCounts ad ''ABSENT'' = Some (Count a)
              \<and> getStatusCounts ad ''LATE'' = Some (Count l)
              \<and> getStatusCounts ad ''EXCUSED'' = Some (Count e)
              \<and> p + a + l + e = length ad"
      by (intro exI [where x = "count_list (map snd ad) ''PRESENT''"]
            exI [where x = "count_list (map snd ad) ''ABSENT''"]
            exI [where x = "count_list (map snd ad) ''LATE''"]
            exI [where x = "count_list (map snd ad) ''EXCUSED''"]) simp
  qed
  have e0: "getStatusCounts [] = counts0" by (simp add: getStatusCounts_def)
  have ex: "getStatusCounts session10 ''PRESENT'' = Some (Count 6)"
       "getStatusCounts session10 ''ABSENT'' = Some (Count 2)"
       "getStatusCounts session10 ''LATE'' = Some (Count 1)"
       "getStatusCounts session10 ''EXCUSED'' = Some (Count 1)"
    by (simp_all add: getStatusCounts_key attendanceStatusEnum_def session10_def)
  have len: "length session10 = 10" by (simp add: session10_def)
  have inh: "getStatusCounts [(''s01'', ''toString''), (''s02'', ''LATE'')] ''toString'' = Some NaN"
    "getStatusCounts [(''s01'', ''toString''), (''s02'', ''LATE'')] ''LATE'' = Some (Count 1)"
    by (simp_all add: getStatusCounts_def count_status_def counts0_def Object_prototype_def)
  from keys dm valid e0 len ex inh show ?thesis by (intro conjI)
qed

theorem getStatusCounts_counts_witness:
  "set (map snd session10) \<subseteq> set attendanceStatusEnum
   \<and> ''LATE'' \<in> set attendanceStatusEnum
   \<and> getStatusCounts session10 ''LATE'' = Some (Count (count_list (map snd session10) ''LATE''))
   \<and> dom (getStatusCounts session10) = set attendanceStatusEnum
   \<and> (\<exists>p a l e.
         getStatusCounts session10 ''PRESENT'' = Some (Count p)
         \<and> getStatusCounts session10 ''ABSENT'' = Some (Count a)
         \<and> getStatusCounts session10 ''LATE'' = Some (Count l)
         \<and> getStatusCounts session10 ''EXCUSED'' = Some (Count e)
         \<and> p + a + l + e = length session10)"
proof -
  have a: "set (map snd session10) \<subseteq> set attendanceStatusEnum"
    by (simp add: session10_def attendanceStatusEnum_def)
  have b: "''LATE'' \<in> set attendanceStatusEnum" by (simp add: attendanceStatusEnum_def)
  from getStatusCounts_counts [of session10]
  have k: "\<forall>k \<in> set attendanceStatusEnum.
      getStatusCounts session10 k = Some (Count (count_list (map snd session10) k))"
    and v: "set (map snd session10) \<subseteq> set attendanceStatusEnum \<longrightarrow>
        dom (getStatusCounts session10) = set attendanceStatusEnum
        \<and> (\<exists>p a l e.
              getStatusCounts session10 ''PRESENT'' = Some (Count p)
              \<and> getStatusCounts session10 ''ABSENT'' = Some (Count a)
              \<and> getStatusCounts session10 ''LATE'' = Some (Count l)
              \<and> getStatusCounts session10 ''EXCUSED'' = Some (Count e)
              \<and> p + a + l + e = length session10)"
    by (rule conjunct1, rule conjunct2 [THEN conjunct2, THEN conjunct1])
  from k b have "getStatusCounts session10 ''LATE''
      = Some (Count (count_list (map snd session10) ''LATE''))" by (rule bspec)
  moreover from v a have "dom (getStatusCounts session10) = set attendanceStatusEnum
        \<and> (\<exists>p a l e.
              getStatusCounts session10 ''PRESENT'' = Some (Count p)
              \<and> getStatusCounts session10 ''ABSENT'' = Some (Count a)
              \<and> getStatusCounts session10 ''LATE'' = Some (Count l)
              \<and> getStatusCounts session10 ''EXCUSED'' = Some (Count e)
              \<and> p + a + l + e = length session10)" by (rule mp)
  ultimately show ?thesis using a b by (intro conjI) (assumption | erule conjunct1 | erule conjunct2)+
qed

subsection \<open>Attendance rate\<close>

lemma attendanceData_query_session:
  "attendanceData_query 20000
     (map (attendance_of ''PRESENT'') [0..<p] @ map (attendance_of st) [p..<t])
   = (if st = ''PRESENT'' then p + (t - p) else p, p + (t - p))"
  by (simp add: attendanceData_query_def attendance_of_def Let_def filter_map comp_def)

lemma attendanceData_query_session80: "attendanceData_query 20000 session80 = (23, 80)"
  by (simp only: session80_def attendanceData_query_session) simp

lemma attendanceData_query_session30: "attendanceData_query 20000 session30 = (27, 30)"
  by (simp only: session30_def attendanceData_query_session) simp

lemma getDashboardStats_attendanceRate_exact:
  "getDashboardStats_attendanceRate exact current_date rows =
     (case attendanceData_query current_date rows of
        (p, t) \<Rightarrow> if 0 < t then of_int \<lfloor>1000 * (of_nat p :: rat) / of_nat t + 1 / 2\<rfloor> / 10 else 0)"
  by (simp add: getDashboardStats_attendanceRate_def rate_exact split: prod.splits)

lemma getDashboardStats_attendanceRate_session30:
  "getDashboardStats_attendanceRate binary64 20000 session30 = 90"
  by (simp add: getDashboardStats_attendanceRate_def attendanceData_query_session30
      rate_binary64_27_30)

text \<open>
  C9 at 23 PRESENT of 80 rows. The rate is 28.75 percent, which rounding half up to one
  decimal takes to 28.8, and this is what the function gives in exact arithmetic. In
  binary64 the quotient times 100 is 28.749999999999996, \<open>Math.round\<close> of ten times
  that is 287, and the function returns the double 28.7.
\<close>

theorem getDashboardStats_attendanceRate_session80:
  "attendanceData_query 20000 session80 = (23, 80)
   \<and> getDashboardStats_attendanceRate binary64 20000 session80
       = 8078331831595827 / 281474976710656
   \<and> binary64 (287 / 10) = 8078331831595827 / 281474976710656
   \<and> binary64 (288 / 10) = 8106479329266893 / 281474976710656
   \<and> getDashboardStats_attendanceRate exact 20000 session80 = 288 / 10
   \<and> (23 :: rat) / 80 * 100 = 2875 / 100"
proof -
  have q: "attendanceData_query 20000 session80 = (23, 80)"
    by (rule attendanceData_query_session80)
  have b: "getDashboardStats_attendanceRate binary64 20000 session80
       = 8078331831595827 / 281474976710656"
    using rate_binary64_23_80 by (simp add: getDashboardStats_attendanceRate_def q)
  have e: "getDashboardStats_attendanceRate exact 20000 session80 = 288 / 10"
    by (simp add: getDashboardStats_attendanceRate_exact q floor_divide_numeral_rat)
  show ?thesis using q b e b64_287_10 b64_288_10 by simp
qed

subsection \<open>Stored examples\<close>

lemmas store_eval =
  createGrade_def markAttendance_def createAssessment_def createCourse_def createStudent_def
  upsertUser_def empty_db_def decimal_5_2_def round_half_away_def Let_def
  floor_divide_numeral_rat g_key_def a_key_def grade_values_def attendance_values_def
  grade_fk_ok_def attendance_fk_ok_def grade_conflict_set_def attendance_conflict_set_def
  set_value_def insert_value_def attendanceStatusEnum_def midterm_def grade85_def grade90_def
  negative_grade_def dangling_grade_def present_s1_def absent_s1_def with_key_indexes_def
  schema_ts_def

lemma seeded_db_eq:
  "seeded_db = \<lparr>users = [''u1''], students = [''s1''], courses = [''c1''],
                 assessments = [midterm], attendance = [], grades = []\<rparr>"
  by (simp add: seeded_db_def store_eval)

lemma once_graded_db_eq:
  "once_graded_db = seeded_db\<lparr>grades :=
    [\<lparr>g_id = ''g1'', g_studentId = ''s1'', g_assessmentId = ''a1'', g_score = 85,
      g_letterGrade = Some ''B'', g_feedback = None, g_gradedBy = ''u1'',
      g_gradedAt = Some 10, g_updatedAt = Some 10\<rparr>]\<rparr>"
  by (simp add: once_graded_db_def seeded_db_eq store_eval)

lemma graded_db_eq:
  "graded_db = seeded_db\<lparr>grades :=
    [\<lparr>g_id = ''g1'', g_studentId = ''s1'', g_assessmentId = ''a1'', g_score = 90,
      g_letterGrade = Some ''A'', g_feedback = None, g_gradedBy = ''u1'',
      g_gradedAt = Some 10, g_updatedAt = Some 11\<rparr>]\<rparr>"
  by (simp add: graded_db_def once_graded_db_eq seeded_db_eq store_eval)

lemma once_marked_db_eq:
  "once_marked_db = graded_db\<lparr>attendance :=
    [\<lparr>a_id = ''t1'', a_studentId = ''s1'', a_courseId = ''c1'', a_date = 20000,
      a_status = ''PRESENT'', a_notes = None, a_markedBy = ''u1'', a_markedAt = Some 12\<rparr>]\<rparr>"
  by (simp add: once_marked_db_def graded_db_eq seeded_db_eq store_eval)

lemma recorded_db_eq:
  "recorded_db = graded_db\<lparr>attendance :=
    [\<lparr>a_id = ''t1'', a_studentId = ''s1'', a_courseId = ''c1'', a_date = 20000,
      a_status = ''ABSENT'', a_notes = None, a_markedBy = ''u1'', a_markedAt = Some 13\<rparr>]\<rparr>"
  by (simp add: recorded_db_def once_marked_db_eq graded_db_eq seeded_db_eq store_eval)

lemma reachable_recorded_db: "reachable with_key_indexes recorded_db"
  unfolding recorded_db_def once_marked_db_def graded_db_def once_graded_db_def seeded_db_def
  by (intro reachable.intros)

lemma reachable_seeded_db: "reachable cat seeded_db"
  unfolding seeded_db_def by (intro reachable.intros)

subsection \<open>Uniqueness of the keys\<close>

lemma find_None_key: "find (\<lambda>r. f r = k) rows = None \<Longrightarrow> k \<notin> set (map f rows)"
  by (auto simp: find_None_iff)

lemma g_key_conflict_set [simp]: "g_key (grade_conflict_set now grade score r) = g_key r"
  by (simp add: g_key_def grade_conflict_set_def)

lemma a_key_conflict_set [simp]: "a_key (attendance_conflict_set now ad r) = a_key r"
  by (simp add: a_key_def attendance_conflict_set_def)

lemma map_key_conflict:
  "(\<And>r. f (u r) = f r) \<Longrightarrow> map f (map (\<lambda>r. if P r then u r else r) rows) = map f rows"
  by (induction rows) auto

lemma createGrade_grades:
  "grades (snd (createGrade cat now uuid grade d)) = grades d
   \<or> (grades_key_index cat \<and> (\<exists>r. g_key r \<notin> set (map g_key (grades d))
         \<and> grades (snd (createGrade cat now uuid grade d)) = grades d @ [r]))
   \<or> (grades_key_index cat \<and> map g_key (grades (snd (createGrade cat now uuid grade d))) = map g_key (grades d))"
proof (cases "find (\<lambda>r. g_key r = (ig_studentId grade, ig_assessmentId grade)) (grades d)")
  case None
  hence "(ig_studentId grade, ig_assessmentId grade) \<notin> set (map g_key (grades d))"
    by (rule find_None_key)
  moreover have "g_key (grade_values now uuid grade sc) = (ig_studentId grade, ig_assessmentId grade)" for sc
    by (simp add: g_key_def grade_values_def)
  ultimately show ?thesis using None
    by (auto simp: createGrade_def Let_def split: sum.splits)
next
  case (Some old)
  then show ?thesis
    by (auto simp: createGrade_def Let_def map_key_conflict split: sum.splits)
qed

lemma createGrade_other:
  "attendance (snd (createGrade cat now uuid grade d)) = attendance d"
  by (auto simp: createGrade_def Let_def split: sum.splits option.splits)

lemma createGrade_inv: "store_inv cat d \<Longrightarrow> store_inv cat (snd (createGrade cat now uuid grade d))"
  using createGrade_grades [of cat now uuid grade d] createGrade_other [of cat now uuid grade d]
  by (auto simp: store_inv_def)

lemma markAttendance_attendance:
  "attendance (snd (markAttendance cat now uuid ad d)) = attendance d
   \<or> (attendance_key_index cat \<and> (\<exists>r. a_key r \<notin> set (map a_key (attendance d))
         \<and> attendance (snd (markAttendance cat now uuid ad d)) = attendance d @ [r]))
   \<or> (attendance_key_index cat \<and> map a_key (attendance (snd (markAttendance cat now uuid ad d))) = map a_key (attendance d))"
proof (cases "find (\<lambda>r. a_key r = (ia_studentId ad, ia_courseId ad, ia_date ad)) (attendance d)")
  case None
  hence "(ia_studentId ad, ia_courseId ad, ia_date ad) \<notin> set (map a_key (attendance d))"
    by (rule find_None_key)
  moreover have "a_key (attendance_values now uuid ad) = (ia_studentId ad, ia_courseId ad, ia_date ad)"
    by (simp add: a_key_def attendance_values_def)
  ultimately show ?thesis using None
    by (auto simp: markAttendance_def Let_def)
next
  case (Some old)
  then show ?thesis
    by (auto simp: markAttendance_def Let_def map_key_conflict)
qed

lemma markAttendance_other:
  "grades (snd (markAttendance cat now uuid ad d)) = grades d"
  by (auto simp: markAttendance_def Let_def split: option.splits)

lemma markAttendance_inv: "store_inv cat d \<Longrightarrow> store_inv cat (snd (markAttendance cat now uuid ad d))"
  using markAttendance_attendance [of cat now uuid ad d] markAttendance_other [of cat now uuid ad d]
  by (auto simp: store_inv_def)

lemma updateGrade_inv: "store_inv cat d \<Longrightarrow> store_inv cat (snd (updateGrade cat now ident pgrade d))"
  by (auto simp: store_inv_def updateGrade_def Let_def split: sum.splits option.splits)

lemma updateAttendance_inv: "store_inv cat d \<Longrightarrow> store_inv cat (snd (updateAttendance cat ident pa d))"
  by (auto simp: store_inv_def updateAttendance_def Let_def split: sum.splits option.splits)

lemma deleteGrade_inv: "store_inv cat d \<Longrightarrow> store_inv cat (deleteGrade ident d)"
  by (auto simp: store_inv_def deleteGrade_def distinct_map_filter)

lemma deleteAssessment_inv: "store_inv cat d \<Longrightarrow> store_inv cat (deleteAssessment ident d)"
  by (auto simp: store_inv_def deleteAssessment_def distinct_map_filter)

lemma deleteStudent_inv: "store_inv cat d \<Longrightarrow> store_inv cat (deleteStudent ident d)"
  by (auto simp: store_inv_def deleteStudent_def distinct_map_filter)

lemma deleteCourse_inv: "store_inv cat d \<Longrightarrow> store_inv cat (deleteCourse ident d)"
  by (auto simp: store_inv_def deleteCourse_def Let_def distinct_map_filter)

lemma upsertUser_inv: "store_inv cat d \<Longrightarrow> store_inv cat (upsertUser ident d)"
  by (auto simp: store_inv_def upsertUser_def)

lemma createStudent_inv: "store_inv cat d \<Longrightarrow> store_inv cat (snd (createStudent uuid userId d))"
  by (auto simp: store_inv_def createStudent_def)

lemma createCourse_inv: "store_inv cat d \<Longrightarrow> store_inv cat (snd (createCourse uuid teacherId d))"
  by (auto simp: store_inv_def createCourse_def)

lemma createAssessment_inv: "store_inv cat d \<Longrightarrow> store_inv cat (snd (createAssessment uuid a d))"
  by (auto simp: store_inv_def createAssessment_def Let_def)

lemma updateAssessment_inv:
  "store_inv cat d \<Longrightarrow> store_inv cat (snd (updateAssessment ident passessment d))"
  by (auto simp: store_inv_def updateAssessment_def Let_def)

lemma reachable_inv: "reachable cat d \<Longrightarrow> store_inv cat d"
proof (induction rule: reachable.induct)
  case r_empty
  show ?case by (simp add: store_inv_def empty_db_def)
qed (simp_all add: createGrade_inv markAttendance_inv updateGrade_inv updateAttendance_inv
      deleteGrade_inv deleteAssessment_inv deleteStudent_inv deleteCourse_inv upsertUser_inv
      createStudent_inv createCourse_inv createAssessment_inv updateAssessment_inv)

text \<open>
  C4. In every state that the operations reach from the empty store, whatever the
  catalog, no two grade rows have the same student and assessment, and no two attendance
  rows have the same student, course and date.
\<close>

theorem reachable_keys_unique:
  "reachable cat d \<Longrightarrow>
     distinct (map g_key (grades d)) \<and> distinct (map a_key (attendance d))"
  using reachable_inv [of cat d] by (simp add: store_inv_def)

theorem reachable_keys_unique_witness:
  "reachable with_key_indexes recorded_db
   \<and> distinct (map g_key (grades recorded_db)) \<and> distinct (map a_key (attendance recorded_db))
   \<and> length (grades recorded_db) = 1 \<and> length (attendance recorded_db) = 1"
  using reachable_recorded_db reachable_keys_unique [OF reachable_recorded_db]
  by (simp add: recorded_db_eq graded_db_eq)

subsection \<open>Upserts on the tables as declared\<close>

lemma createGrade_no_index:
  "\<not> grades_key_index cat \<Longrightarrow> createGrade cat now uuid grade d = (Inl NoArbiterIndex, d)"
  by (simp add: createGrade_def)

lemma markAttendance_no_index:
  "\<not> attendance_key_index cat \<Longrightarrow>
   markAttendance cat now uuid attendanceData d = (Inl NoArbiterIndex, d)"
  by (simp add: markAttendance_def)

lemma reachable_schema_ts_empty:
  "reachable schema_ts d \<Longrightarrow> grades d = [] \<and> attendance d = []"
  using reachable_inv [of schema_ts d] by (simp add: store_inv_def schema_ts_def)

text \<open>
  C3 on the tables as declared. \<open>grades\<close> has no unique index on the conflict target,
  so both calls of \<open>createGrade\<close> with the same input fail and the table has no row for
  the key, where the claim has one.
\<close>

theorem createGrade_twice_schema_ts:
  "fst (createGrade schema_ts 10 ''g1'' grade85 seeded_db) = Inl NoArbiterIndex
   \<and> fst (createGrade schema_ts 11 ''g2'' grade85
            (snd (createGrade schema_ts 10 ''g1'' grade85 seeded_db))) = Inl NoArbiterIndex
   \<and> grades (snd (createGrade schema_ts 11 ''g2'' grade85
            (snd (createGrade schema_ts 10 ''g1'' grade85 seeded_db)))) = []"
  by (simp add: createGrade_no_index schema_ts_def seeded_db_eq)

text \<open>
  C5 on the tables as declared. \<open>attendance\<close> has no unique index on the conflict
  target, so marking PRESENT and then ABSENT fails twice and the table has no row for
  the key, where the claim has one row with status ABSENT.
\<close>

theorem markAttendance_present_absent_schema_ts:
  "fst (markAttendance schema_ts 10 ''t1'' present_s1 seeded_db) = Inl NoArbiterIndex
   \<and> fst (markAttendance schema_ts 11 ''t2'' absent_s1
            (snd (markAttendance schema_ts 10 ''t1'' present_s1 seeded_db))) = Inl NoArbiterIndex
   \<and> attendance (snd (markAttendance schema_ts 11 ''t2'' absent_s1
            (snd (markAttendance schema_ts 10 ''t1'' present_s1 seeded_db)))) = []"
  by (simp add: markAttendance_no_index schema_ts_def seeded_db_eq)

subsection \<open>Upserts on a database with the unique indexes\<close>

lemma filter_map_if_other:
  "filter (\<lambda>r. \<not> P r) (map (\<lambda>r. if P r then u r else r) rows) = filter (\<lambda>r. \<not> P r) rows"
  if "\<And>r. P r \<Longrightarrow> P (u r)"
  using that by (induction rows) auto

lemma createGrade_conflict:
  assumes "fst (createGrade cat now uuid grade d) = Inr newGrade"
    and "find (\<lambda>r. g_key r = (ig_studentId grade, ig_assessmentId grade)) (grades d) = Some old"
  shows "\<exists>score. decimal_5_2 (ig_score grade) = Inr score
           \<and> newGrade = grade_conflict_set now grade score old
           \<and> snd (createGrade cat now uuid grade d) =
               d\<lparr>grades := map (\<lambda>r. if g_key r = g_key old
                                       then grade_conflict_set now grade score r else r) (grades d)\<rparr>"
  using assms by (auto simp: createGrade_def Let_def split: sum.splits if_splits)

lemma markAttendance_conflict:
  assumes "fst (markAttendance cat now uuid ad d) = Inr newAttendance"
    and "find (\<lambda>r. a_key r = (ia_studentId ad, ia_courseId ad, ia_date ad)) (attendance d) = Some old"
  shows "newAttendance = attendance_conflict_set now ad old
           \<and> snd (markAttendance cat now uuid ad d) =
               d\<lparr>attendance := map (\<lambda>r. if a_key r = a_key old
                                       then attendance_conflict_set now ad r else r) (attendance d)\<rparr>"
  using assms by (auto simp: markAttendance_def Let_def split: sum.splits if_splits)

text \<open>
  C10. When \<open>createGrade\<close> succeeds and a grade row with the student and assessment of
  the input was there, the row keeps its id, student, assessment and \<open>gradedAt\<close>; its
  score, grader and \<open>updatedAt\<close> are those of the call, its letter grade and feedback
  are those of the input where the input has them; every row keeps its id, key and
  \<open>gradedAt\<close>, the rows of other keys and the other tables are unchanged. The same
  holds for \<open>markAttendance\<close> with the student, course and date of the row kept and
  status, notes, marker and \<open>markedAt\<close> written.
\<close>

theorem upsert_conflict_frame:
  "(fst (createGrade cat now uuid grade d) = Inr newGrade
     \<and> find (\<lambda>r. g_key r = (ig_studentId grade, ig_assessmentId grade)) (grades d) = Some old
    \<longrightarrow> g_id newGrade = g_id old
        \<and> g_studentId newGrade = g_studentId old
        \<and> g_assessmentId newGrade = g_assessmentId old
        \<and> g_gradedAt newGrade = g_gradedAt old
        \<and> Inr (g_score newGrade) = decimal_5_2 (ig_score grade)
        \<and> g_letterGrade newGrade = set_value (ig_letterGrade grade) (g_letterGrade old)
        \<and> g_feedback newGrade = set_value (ig_feedback grade) (g_feedback old)
        \<and> g_gradedBy newGrade = ig_gradedBy grade
        \<and> g_updatedAt newGrade = Some now
        \<and> newGrade \<in> set (grades (snd (createGrade cat now uuid grade d)))
        \<and> map g_id (grades (snd (createGrade cat now uuid grade d))) = map g_id (grades d)
        \<and> map g_key (grades (snd (createGrade cat now uuid grade d))) = map g_key (grades d)
        \<and> map g_gradedAt (grades (snd (createGrade cat now uuid grade d))) = map g_gradedAt (grades d)
        \<and> filter (\<lambda>r. g_key r \<noteq> g_key old) (grades (snd (createGrade cat now uuid grade d)))
            = filter (\<lambda>r. g_key r \<noteq> g_key old) (grades d)
        \<and> (snd (createGrade cat now uuid grade d))\<lparr>grades := grades d\<rparr> = d)
   \<and> (fst (markAttendance cat now uuid attendanceData d) = Inr newAttendance
     \<and> find (\<lambda>r. a_key r = (ia_studentId attendanceData, ia_courseId attendanceData,
                             ia_date attendanceData)) (attendance d) = Some before
    \<longrightarrow> a_id newAttendance = a_id before
        \<and> a_studentId newAttendance = a_studentId before
        \<and> a_courseId newAttendance = a_courseId before
        \<and> a_date newAttendance = a_date before
        \<and> a_status newAttendance = ia_status attendanceData
        \<and> a_notes newAttendance = set_value (ia_notes attendanceData) (a_notes before)
        \<and> a_markedBy newAttendance = ia_markedBy attendanceData
        \<and> a_markedAt newAttendance = Some now
        \<and> newAttendance \<in> set (attendance (snd (markAttendance cat now uuid attendanceData d)))
        \<and> map a_id (attendance (snd (markAttendance cat now uuid attendanceData d)))
            = map a_id (attendance d)
        \<and> map a_key (attendance (snd (markAttendance cat now uuid attendanceData d)))
            = map a_key (attendance d)
        \<and> filter (\<lambda>r. a_key r \<noteq> a_key before)
              (attendance (snd (markAttendance cat now uuid attendanceData d)))
            = filter (\<lambda>r. a_key r \<noteq> a_key before) (attendance d)
        \<and> (snd (markAttendance cat now uuid attendanceData d))\<lparr>attendance := attendance d\<rparr> = d)"
proof (intro conjI impI)
  assume a: "fst (createGrade cat now uuid grade d) = Inr newGrade
     \<and> find (\<lambda>r. g_key r = (ig_studentId grade, ig_assessmentId grade)) (grades d) = Some old"
  from createGrade_conflict [of cat now uuid grade d newGrade old] a
  obtain score where sc: "decimal_5_2 (ig_score grade) = Inr score"
    and ng: "newGrade = grade_conflict_set now grade score old"
    and d': "snd (createGrade cat now uuid grade d) =
               d\<lparr>grades := map (\<lambda>r. if g_key r = g_key old
                                       then grade_conflict_set now grade score r else r) (grades d)\<rparr>"
    by blast
  have mem: "old \<in> set (grades d)" using a find_Some_mem by fastforce
  show "g_id newGrade = g_id old" "g_studentId newGrade = g_studentId old"
    "g_assessmentId newGrade = g_assessmentId old" "g_gradedAt newGrade = g_gradedAt old"
    "g_letterGrade newGrade = set_value (ig_letterGrade grade) (g_letterGrade old)"
    "g_feedback newGrade = set_value (ig_feedback grade) (g_feedback old)"
    "g_gradedBy newGrade = ig_gradedBy grade" "g_updatedAt newGrade = Some now"
    by (simp_all add: ng grade_conflict_set_def)
  show "Inr (g_score newGrade) = decimal_5_2 (ig_score grade)"
    by (simp add: ng sc grade_conflict_set_def)
  show "newGrade \<in> set (grades (snd (createGrade cat now uuid grade d)))"
    using mem by (auto simp: d' ng intro!: image_eqI [where x = old])
  show "map g_id (grades (snd (createGrade cat now uuid grade d))) = map g_id (grades d)"
    by (simp add: d' map_key_conflict grade_conflict_set_def del: map_map)
  show "map g_key (grades (snd (createGrade cat now uuid grade d))) = map g_key (grades d)"
    by (simp add: d' map_key_conflict del: map_map)
  show "map g_gradedAt (grades (snd (createGrade cat now uuid grade d))) = map g_gradedAt (grades d)"
    by (simp add: d' map_key_conflict grade_conflict_set_def del: map_map)
  show "filter (\<lambda>r. g_key r \<noteq> g_key old) (grades (snd (createGrade cat now uuid grade d)))
            = filter (\<lambda>r. g_key r \<noteq> g_key old) (grades d)"
    by (simp add: d' filter_map_if_other [where P = "\<lambda>r. g_key r = g_key old"])
  show "(snd (createGrade cat now uuid grade d))\<lparr>grades := grades d\<rparr> = d"
    by (simp add: d')
next
  assume a: "fst (markAttendance cat now uuid attendanceData d) = Inr newAttendance
     \<and> find (\<lambda>r. a_key r = (ia_studentId attendanceData, ia_courseId attendanceData,
                             ia_date attendanceData)) (attendance d) = Some before"
  from markAttendance_conflict [of cat now uuid attendanceData d newAttendance before] a
  have na: "newAttendance = attendance_conflict_set now attendanceData before"
    and d': "snd (markAttendance cat now uuid attendanceData d) =
               d\<lparr>attendance := map (\<lambda>r. if a_key r = a_key before
                                       then attendance_conflict_set now attendanceData r else r)
                                  (attendance d)\<rparr>"
    by blast+
  have mem: "before \<in> set (attendance d)" using a find_Some_mem by fastforce
  show "a_id newAttendance = a_id before" "a_studentId newAttendance = a_studentId before"
    "a_courseId newAttendance = a_courseId before" "a_date newAttendance = a_date before"
    "a_status newAttendance = ia_status attendanceData"
    "a_notes newAttendance = set_value (ia_notes attendanceData) (a_notes before)"
    "a_markedBy newAttendance = ia_markedBy attendanceData" "a_markedAt newAttendance = Some now"
    by (simp_all add: na attendance_conflict_set_def)
  show "newAttendance \<in> set (attendance (snd (markAttendance cat now uuid attendanceData d)))"
    using mem by (auto simp: d' na intro!: image_eqI [where x = before])
  show "map a_id (attendance (snd (markAttendance cat now uuid attendanceData d)))
            = map a_id (attendance d)"
    by (simp add: d' map_key_conflict attendance_conflict_set_def del: map_map)
  show "map a_key (attendance (snd (markAttendance cat now uuid attendanceData d)))
            = map a_key (attendance d)"
    by (simp add: d' map_key_conflict del: map_map)
  show "filter (\<lambda>r. a_key r \<noteq> a_key before)
              (attendance (snd (markAttendance cat now uuid attendanceData d)))
            = filter (\<lambda>r. a_key r \<noteq> a_key before) (attendance d)"
    by (simp add: d' filter_map_if_other [where P = "\<lambda>r. a_key r = a_key before"])
  show "(snd (markAttendance cat now uuid attendanceData d))\<lparr>attendance := attendance d\<rparr> = d"
    by (simp add: d')
qed

theorem upsert_conflict_frame_witness:
  "fst (createGrade with_key_indexes 11 ''g2'' grade90 once_graded_db) = Inr (hd (grades graded_db))
   \<and> find (\<lambda>r. g_key r = (ig_studentId grade90, ig_assessmentId grade90)) (grades once_graded_db)
       = Some (hd (grades once_graded_db))
   \<and> g_id (hd (grades graded_db)) = g_id (hd (grades once_graded_db))
   \<and> g_gradedAt (hd (grades graded_db)) = g_gradedAt (hd (grades once_graded_db))
   \<and> g_updatedAt (hd (grades graded_db)) = Some 11
   \<and> fst (markAttendance with_key_indexes 13 ''t2'' absent_s1 once_marked_db)
       = Inr (hd (attendance recorded_db))
   \<and> find (\<lambda>r. a_key r = (ia_studentId absent_s1, ia_courseId absent_s1, ia_date absent_s1))
         (attendance once_marked_db) = Some (hd (attendance once_marked_db))
   \<and> a_id (hd (attendance recorded_db)) = a_id (hd (attendance once_marked_db))
   \<and> a_status (hd (attendance recorded_db)) = ia_status absent_s1"
proof -
  have g: "fst (createGrade with_key_indexes 11 ''g2'' grade90 once_graded_db)
             = Inr (hd (grades graded_db))
     \<and> find (\<lambda>r. g_key r = (ig_studentId grade90, ig_assessmentId grade90)) (grades once_graded_db)
       = Some (hd (grades once_graded_db))"
    by (simp add: graded_db_eq once_graded_db_eq seeded_db_eq store_eval)
  have a: "fst (markAttendance with_key_indexes 13 ''t2'' absent_s1 once_marked_db)
       = Inr (hd (attendance recorded_db))
     \<and> find (\<lambda>r. a_key r = (ia_studentId absent_s1, ia_courseId absent_s1, ia_date absent_s1))
         (attendance once_marked_db) = Some (hd (attendance once_marked_db))"
    by (simp add: recorded_db_eq once_marked_db_eq graded_db_eq seeded_db_eq store_eval)
  have cg: "g_id (hd (grades graded_db)) = g_id (hd (grades once_graded_db))
     \<and> g_gradedAt (hd (grades graded_db)) = g_gradedAt (hd (grades once_graded_db))
     \<and> g_updatedAt (hd (grades graded_db)) = Some 11"
    using g upsert_conflict_frame [where cat = with_key_indexes and now = 11 and uuid = "''g2''"
        and grade = grade90 and d = once_graded_db and newGrade = "hd (grades graded_db)"
        and old = "hd (grades once_graded_db)"]
    by blast
  have ca: "a_id (hd (attendance recorded_db)) = a_id (hd (attendance once_marked_db))
     \<and> a_status (hd (attendance recorded_db)) = ia_status absent_s1"
    using a upsert_conflict_frame [where cat = with_key_indexes and now = 13 and uuid = "''t2''"
        and attendanceData = absent_s1 and d = once_marked_db
        and newAttendance = "hd (attendance recorded_db)"
        and before = "hd (attendance once_marked_db)"]
    by blast
  show ?thesis using g a cg ca by blast
qed

text \<open>
  On a database that has the unique indexes the upserts do what the two conflict clauses
  are written for: a second \<open>createGrade\<close> with the same input succeeds and leaves one
  row for the key, the row of the first call with the same score; a second
  \<open>markAttendance\<close> for the same key leaves one row, the row of the first call with
  the status and marker of the second.
\<close>

lemma distinct_key_filter:
  "distinct (map f rows) \<Longrightarrow> x \<in> set rows \<Longrightarrow> filter (\<lambda>r. f r = f x) rows = [x]"
proof (induction rows)
  case Nil
  then show ?case by simp
next
  case (Cons y rows)
  show ?case
  proof (cases "y = x")
    case True
    have "f x \<notin> f ` set rows" using Cons.prems(1) True by simp
    hence "\<forall>r \<in> set rows. f r \<noteq> f x" by (metis imageI)
    hence "filter (\<lambda>r. f r = f x) rows = []" by (simp add: filter_empty_conv)
    then show ?thesis using True by simp
  next
    case False
    hence "x \<in> set rows" using Cons.prems(2) by simp
    moreover have "f y \<noteq> f x" using Cons.prems(1) \<open>x \<in> set rows\<close> by auto
    ultimately show ?thesis using Cons by simp
  qed
qed

lemma createGrade_success:
  assumes "fst (createGrade cat now uuid grade d) = Inr newGrade"
  shows "grades_key_index cat
     \<and> newGrade \<in> set (grades (snd (createGrade cat now uuid grade d)))
     \<and> g_key newGrade = (ig_studentId grade, ig_assessmentId grade)
     \<and> Inr (g_score newGrade) = decimal_5_2 (ig_score grade)
     \<and> g_gradedBy newGrade = ig_gradedBy grade
     \<and> grade_fk_ok d newGrade"
proof (cases "find (\<lambda>r. g_key r = (ig_studentId grade, ig_assessmentId grade)) (grades d)")
  case None
  then show ?thesis using assms
    by (auto simp: createGrade_def Let_def g_key_def grade_values_def split: sum.splits if_splits)
next
  case (Some old)
  have k: "g_key old = (ig_studentId grade, ig_assessmentId grade)" and m: "old \<in> set (grades d)"
    using Some find_Some_mem [of "\<lambda>r. g_key r = (ig_studentId grade, ig_assessmentId grade)"]
    by auto
  from createGrade_conflict [OF assms Some] obtain score
    where sc: "decimal_5_2 (ig_score grade) = Inr score"
      and ng: "newGrade = grade_conflict_set now grade score old"
      and d': "snd (createGrade cat now uuid grade d) =
               d\<lparr>grades := map (\<lambda>r. if g_key r = g_key old
                                       then grade_conflict_set now grade score r else r) (grades d)\<rparr>"
    by blast
  have "newGrade \<in> set (grades (snd (createGrade cat now uuid grade d)))"
    using m by (auto simp: d' ng intro!: image_eqI [where x = old])
  moreover have "grades_key_index cat \<and> grade_fk_ok d newGrade" using assms Some
    by (auto simp: createGrade_def Let_def split: sum.splits if_splits)
  ultimately show ?thesis using k sc by (simp add: ng grade_conflict_set_def g_key_def)
qed

lemma createGrade_one_row:
  assumes "store_inv cat d" and "fst (createGrade cat now uuid grade d) = Inr newGrade"
  shows "filter (\<lambda>r. g_key r = (ig_studentId grade, ig_assessmentId grade))
           (grades (snd (createGrade cat now uuid grade d))) = [newGrade]"
proof -
  have "distinct (map g_key (grades (snd (createGrade cat now uuid grade d))))"
    using createGrade_inv [OF assms(1)] by (simp add: store_inv_def)
  from distinct_key_filter [OF this, of newGrade] createGrade_success [OF assms(2)]
  show ?thesis by simp
qed

lemma createGrade_again:
  assumes "fst (createGrade cat now uuid grade d) = Inr newGrade"
  shows "\<exists>again. fst (createGrade cat now' uuid' grade (snd (createGrade cat now uuid grade d)))
           = Inr again"
proof -
  let ?d = "snd (createGrade cat now uuid grade d)"
  from createGrade_success [OF assms]
  have idx: "grades_key_index cat" and mem: "newGrade \<in> set (grades ?d)"
    and key: "g_key newGrade = (ig_studentId grade, ig_assessmentId grade)"
    and sc: "Inr (g_score newGrade) = decimal_5_2 (ig_score grade)"
    and gb: "g_gradedBy newGrade = ig_gradedBy grade"
    and fk: "grade_fk_ok d newGrade" by blast+
  have same: "users ?d = users d" "students ?d = students d" "assessments ?d = assessments d"
    by (auto simp: createGrade_def Let_def split: sum.splits option.splits)
  obtain old where old: "find (\<lambda>r. g_key r = (ig_studentId grade, ig_assessmentId grade)) (grades ?d) = Some old"
    using mem key by (cases "find (\<lambda>r. g_key r = (ig_studentId grade, ig_assessmentId grade)) (grades ?d)")
      (auto simp: find_None_iff)
  have ko: "g_key old = (ig_studentId grade, ig_assessmentId grade)"
    using old by (rule find_Some_key)
  have "grade_fk_ok ?d (grade_conflict_set now' grade (g_score newGrade) old)"
    using fk ko key gb
    by (simp add: grade_fk_ok_def same grade_conflict_set_def g_key_def)
  thus ?thesis using idx old sc [symmetric]
    by (simp add: createGrade_def Let_def)
qed

lemma createGrade_idempotent_with_index:
  assumes inv: "store_inv cat d"
    and first: "fst (createGrade cat now uuid grade d) = Inr first"
  shows "\<exists>again.
           fst (createGrade cat now' uuid' grade (snd (createGrade cat now uuid grade d))) = Inr again
         \<and> filter (\<lambda>r. g_key r = (ig_studentId grade, ig_assessmentId grade))
              (grades (snd (createGrade cat now' uuid' grade (snd (createGrade cat now uuid grade d)))))
             = [again]
         \<and> g_id again = g_id first
         \<and> g_score again = g_score first"
proof -
  let ?d1 = "snd (createGrade cat now uuid grade d)"
  let ?key = "(ig_studentId grade, ig_assessmentId grade)"
  from createGrade_again [OF first] obtain again
    where again: "fst (createGrade cat now' uuid' grade ?d1) = Inr again" by blast
  have inv1: "store_inv cat ?d1" using inv by (rule createGrade_inv)
  have one1: "filter (\<lambda>r. g_key r = ?key) (grades ?d1) = [first]"
    using inv first by (rule createGrade_one_row)
  have one2: "filter (\<lambda>r. g_key r = ?key)
                (grades (snd (createGrade cat now' uuid' grade ?d1))) = [again]"
    using inv1 again by (rule createGrade_one_row)
  obtain old where old: "find (\<lambda>r. g_key r = ?key) (grades ?d1) = Some old"
    using one1 by (cases "find (\<lambda>r. g_key r = ?key) (grades ?d1)")
      (auto simp: find_None_iff filter_empty_conv)
  have "old \<in> set (filter (\<lambda>r. g_key r = ?key) (grades ?d1))"
    using find_Some_mem [OF old] by simp
  hence "old = first" by (simp add: one1)
  with createGrade_conflict [OF again old]
  have id: "g_id again = g_id first" by (auto simp: grade_conflict_set_def)
  have "Inr (g_score again) = (Inr (g_score first) :: error + rat)"
    using createGrade_success [OF again] createGrade_success [OF first] by simp
  hence "g_score again = g_score first" by simp
  thus ?thesis using again one2 id by blast
qed

lemma markAttendance_success:
  assumes "fst (markAttendance cat now uuid ad d) = Inr newAttendance"
  shows "newAttendance \<in> set (attendance (snd (markAttendance cat now uuid ad d)))
     \<and> a_key newAttendance = (ia_studentId ad, ia_courseId ad, ia_date ad)
     \<and> a_status newAttendance = ia_status ad
     \<and> a_markedBy newAttendance = ia_markedBy ad
     \<and> a_markedAt newAttendance = Some now"
proof (cases "find (\<lambda>r. a_key r = (ia_studentId ad, ia_courseId ad, ia_date ad)) (attendance d)")
  case None
  then show ?thesis using assms
    by (auto simp: markAttendance_def Let_def a_key_def attendance_values_def split: if_splits)
next
  case (Some old)
  have k: "a_key old = (ia_studentId ad, ia_courseId ad, ia_date ad)"
    and m: "old \<in> set (attendance d)"
    using Some find_Some_mem [of "\<lambda>r. a_key r = (ia_studentId ad, ia_courseId ad, ia_date ad)"]
    by auto
  from markAttendance_conflict [OF assms Some]
  have na: "newAttendance = attendance_conflict_set now ad old"
    and d': "snd (markAttendance cat now uuid ad d) =
               d\<lparr>attendance := map (\<lambda>r. if a_key r = a_key old
                                       then attendance_conflict_set now ad r else r)
                                  (attendance d)\<rparr>"
    by blast+
  have "newAttendance \<in> set (attendance (snd (markAttendance cat now uuid ad d)))"
    using m by (auto simp: d' na intro!: image_eqI [where x = old])
  thus ?thesis using k by (simp add: na attendance_conflict_set_def a_key_def)
qed

lemma markAttendance_one_row:
  assumes "store_inv cat d" and "fst (markAttendance cat now uuid ad d) = Inr newAttendance"
  shows "filter (\<lambda>r. a_key r = (ia_studentId ad, ia_courseId ad, ia_date ad))
           (attendance (snd (markAttendance cat now uuid ad d))) = [newAttendance]"
proof -
  have "distinct (map a_key (attendance (snd (markAttendance cat now uuid ad d))))"
    using markAttendance_inv [OF assms(1)] by (simp add: store_inv_def)
  from distinct_key_filter [OF this, of newAttendance] markAttendance_success [OF assms(2)]
  show ?thesis by simp
qed

lemma markAttendance_last_write_wins_with_index:
  assumes inv: "store_inv cat d"
    and first: "fst (markAttendance cat now uuid ad d) = Inr first"
    and second: "fst (markAttendance cat now' uuid' ad'
                   (snd (markAttendance cat now uuid ad d))) = Inr second"
    and key: "(ia_studentId ad', ia_courseId ad', ia_date ad')
                = (ia_studentId ad, ia_courseId ad, ia_date ad)"
  shows "filter (\<lambda>r. a_key r = (ia_studentId ad, ia_courseId ad, ia_date ad))
           (attendance (snd (markAttendance cat now' uuid' ad'
              (snd (markAttendance cat now uuid ad d))))) = [second]
         \<and> a_id second = a_id first
         \<and> a_status second = ia_status ad'
         \<and> a_markedBy second = ia_markedBy ad'
         \<and> a_markedAt second = Some now'"
proof -
  let ?d1 = "snd (markAttendance cat now uuid ad d)"
  let ?key = "(ia_studentId ad, ia_courseId ad, ia_date ad)"
  have inv1: "store_inv cat ?d1" using inv by (rule markAttendance_inv)
  have one1: "filter (\<lambda>r. a_key r = ?key) (attendance ?d1) = [first]"
    using inv first by (rule markAttendance_one_row)
  have one2: "filter (\<lambda>r. a_key r = ?key)
                (attendance (snd (markAttendance cat now' uuid' ad' ?d1))) = [second]"
    using markAttendance_one_row [OF inv1 second] key by simp
  obtain old where old: "find (\<lambda>r. a_key r = (ia_studentId ad', ia_courseId ad', ia_date ad'))
                           (attendance ?d1) = Some old"
    using one1 key
    by (cases "find (\<lambda>r. a_key r = (ia_studentId ad', ia_courseId ad', ia_date ad')) (attendance ?d1)")
      (auto simp: find_None_iff filter_empty_conv)
  have "old \<in> set (filter (\<lambda>r. a_key r = ?key) (attendance ?d1))"
    using find_Some_mem [OF old] key by simp
  hence "old = first" by (simp add: one1)
  with markAttendance_conflict [OF second old]
  have id: "a_id second = a_id first" by (auto simp: attendance_conflict_set_def)
  show ?thesis using one2 id markAttendance_success [OF second] by simp
qed

subsection \<open>Failures of createGrade\<close>

text \<open>
  C7 as stated has a negative score rejected by validation. On the tables as declared the
  call with score -5 fails as the call with score 85 does, for want of the arbiter index;
  on a database with the index it succeeds and stores the row with score -5.
\<close>

theorem createGrade_negative_score_counterexample:
  "ig_score negative_grade < 0
   \<and> fst (createGrade schema_ts 10 ''g1'' negative_grade seeded_db) = Inl NoArbiterIndex
   \<and> fst (createGrade schema_ts 10 ''g1'' grade85 seeded_db) = Inl NoArbiterIndex
   \<and> createGrade with_key_indexes 10 ''g1'' negative_grade seeded_db
       = (Inr (grade_values 10 ''g1'' negative_grade (- 5)),
          seeded_db\<lparr>grades := [grade_values 10 ''g1'' negative_grade (- 5)]\<rparr>)"
  by (simp add: seeded_db_eq store_eval)

text \<open>
  C7, amended. \<open>createGrade\<close> fails when the student or the assessment of the input
  does not exist, with a foreign key violation when the index exists, the score fits the
  column and the generated id is fresh; and whenever it fails the database is unchanged.
\<close>

theorem createGrade_failure:
  "((ig_studentId grade \<notin> set (students d) \<or> ig_assessmentId grade \<notin> set (map as_id (assessments d)))
      \<longrightarrow> (\<exists>e. fst (createGrade cat now uuid grade d) = Inl e))
   \<and> ((ig_studentId grade \<notin> set (students d) \<or> ig_assessmentId grade \<notin> set (map as_id (assessments d)))
        \<and> grades_key_index cat \<and> decimal_5_2 (ig_score grade) = Inr score
        \<and> uuid \<notin> set (map g_id (grades d))
      \<longrightarrow> fst (createGrade cat now uuid grade d) = Inl ForeignKeyViolation)
   \<and> ((\<exists>e. fst (createGrade cat now uuid grade d) = Inl e)
      \<longrightarrow> snd (createGrade cat now uuid grade d) = d)"
proof -
  have fk_new: "\<not> grade_fk_ok d (grade_values now uuid grade sc)"
    if "ig_studentId grade \<notin> set (students d) \<or> ig_assessmentId grade \<notin> set (map as_id (assessments d))" for sc
    using that by (auto simp: grade_fk_ok_def grade_values_def)
  have fk_old: "\<not> grade_fk_ok d (grade_conflict_set now grade sc old)"
    if "ig_studentId grade \<notin> set (students d) \<or> ig_assessmentId grade \<notin> set (map as_id (assessments d))"
      and "find (\<lambda>r. g_key r = (ig_studentId grade, ig_assessmentId grade)) (grades d) = Some old" for sc old
  proof -
    have "g_key old = (ig_studentId grade, ig_assessmentId grade)" using that(2) by (rule find_Some_key)
    thus ?thesis using that(1) by (auto simp: grade_fk_ok_def grade_conflict_set_def g_key_def)
  qed
  have a: "(ig_studentId grade \<notin> set (students d) \<or> ig_assessmentId grade \<notin> set (map as_id (assessments d)))
      \<longrightarrow> (\<exists>e. fst (createGrade cat now uuid grade d) = Inl e)"
    using fk_new fk_old by (auto simp: createGrade_def Let_def split: sum.splits option.splits)
  have b: "(ig_studentId grade \<notin> set (students d) \<or> ig_assessmentId grade \<notin> set (map as_id (assessments d)))
        \<and> grades_key_index cat \<and> decimal_5_2 (ig_score grade) = Inr score
        \<and> uuid \<notin> set (map g_id (grades d))
      \<longrightarrow> fst (createGrade cat now uuid grade d) = Inl ForeignKeyViolation"
    using fk_new fk_old by (auto simp: createGrade_def Let_def split: sum.splits option.splits)
  have c: "(\<exists>e. fst (createGrade cat now uuid grade d) = Inl e)
      \<longrightarrow> snd (createGrade cat now uuid grade d) = d"
    by (auto simp: createGrade_def Let_def split: sum.splits option.splits)
  show ?thesis using a b c by blast
qed

theorem createGrade_failure_witness:
  "ig_studentId dangling_grade \<notin> set (students seeded_db)
   \<and> grades_key_index with_key_indexes
   \<and> decimal_5_2 (ig_score dangling_grade) = Inr 85
   \<and> ''g1'' \<notin> set (map g_id (grades seeded_db))
   \<and> fst (createGrade with_key_indexes 10 ''g1'' dangling_grade seeded_db) = Inl ForeignKeyViolation
   \<and> snd (createGrade with_key_indexes 10 ''g1'' dangling_grade seeded_db) = seeded_db"
proof -
  have h: "ig_studentId dangling_grade \<notin> set (students seeded_db)"
    "grades_key_index with_key_indexes"
    "decimal_5_2 (ig_score dangling_grade) = Inr 85"
    "''g1'' \<notin> set (map g_id (grades seeded_db))"
    by (simp_all add: seeded_db_eq store_eval)
  show ?thesis
    using h createGrade_failure [of dangling_grade seeded_db with_key_indexes 10 "''g1''" 85]
    by simp
qed

end
